theory Spec2Isabelle
  imports Main "HOL-Library.Sublist"
begin

section \<open>The mount-path rewriting admission webhook (app/main.py)\<close>

text \<open>
  A shallow embedding of \<^verbatim>\<open>app/main.py\<close>. A Python \<^verbatim>\<open>str\<close> is a \<^typ>\<open>string\<close>, one
  \<^typ>\<open>char\<close> per code point (so the model covers code points up to 255). The four
  module-level settings read from the environment are the fields of a record that every
  function takes as its first argument.
\<close>

subsection \<open>Configuration\<close>

record config =
  LABEL_KEY :: string
  LABEL_VALUE :: string
  REWRITE_FROM :: string
  REWRITE_TO :: string

definition default_config :: config where
  "default_config =
     \<lparr>LABEL_KEY = ''nfs-home'', LABEL_VALUE = ''true'',
      REWRITE_FROM = ''/home'', REWRITE_TO = ''/blah/home''\<rparr>"

subsection \<open>String primitives\<close>

text \<open>\<^verbatim>\<open>s.rstrip("/")\<close>: every trailing slash is removed.\<close>

definition rstrip_slash :: "string \<Rightarrow> string" where
  "rstrip_slash s = rev (dropWhile (\<lambda>c. c = CHR ''/'') (rev s))"

text \<open>\<^verbatim>\<open>s.startswith(p)\<close>.\<close>

definition startswith :: "string \<Rightarrow> string \<Rightarrow> bool" where
  "startswith s p = (take (length p) s = p)"

subsection \<open>PathRewriter: \<^verbatim>\<open>replace_home_path\<close>\<close>

text \<open>
  The slice \<^verbatim>\<open>original_path[len(from_prefix) - 1 :][len(from_exact) :]\<close> is two slices
  one after the other; a slice \<^verbatim>\<open>s[n:]\<close> with \<open>n \<ge> 0\<close> is \<^term>\<open>drop n s\<close>. The
  prefix always ends in a slash, so \<open>len(from_prefix) - 1\<close> is never negative.
\<close>

definition replace_home_path :: "config \<Rightarrow> string \<Rightarrow> string" where
  "replace_home_path cfg original_path =
     (let from_exact = REWRITE_FROM cfg;
          from_prefix = rstrip_slash (REWRITE_FROM cfg) @ ''/'';
          to_base = rstrip_slash (REWRITE_TO cfg)
      in if original_path = from_exact then to_base @ ''/''
         else if startswith original_path from_prefix then
           (let suffix = drop (length from_exact) (drop (length from_prefix - 1) original_path)
            in to_base @ suffix)
         else original_path)"

subsection \<open>Decoded JSON documents and Python's dynamic operations on them\<close>

text \<open>
  What \<^verbatim>\<open>request.get_json\<close> returns. A float is kept as sign, mantissa and exponent
  (or an infinity, or not-a-number, which Python's parser accepts); only its being zero is
  ever looked at. A \<^verbatim>\<open>dict\<close> is an association list in insertion order; a decoded
  document never repeats a key, and \<^const>\<open>map_of\<close> reads the first binding of one.
  \<^verbatim>\<open>None\<close> is \<open>JNull\<close>.
\<close>

datatype pyfloat = Finite bool nat int | Infinity bool | NaN

datatype json =
    JNull
  | JBool bool
  | JInt int
  | JFloat pyfloat
  | JStr string
  | JList "json list"
  | JDict "(string \<times> json) list"

text \<open>The exceptions the handler can meet.\<close>

datatype exc = BadRequest | ValueError | AttributeError | TypeError

text \<open>Sequencing of two steps, the first of which may raise.\<close>

definition bind_exc :: "exc + 'a \<Rightarrow> ('a \<Rightarrow> exc + 'b) \<Rightarrow> exc + 'b" where
  "bind_exc m f = (case m of Inl e \<Rightarrow> Inl e | Inr x \<Rightarrow> f x)"

text \<open>Python's truth value of an object, as \<^verbatim>\<open>x or y\<close> tests it.\<close>

fun truthy :: "json \<Rightarrow> bool" where
  "truthy JNull = False"
| "truthy (JBool b) = b"
| "truthy (JInt i) = (i \<noteq> 0)"
| "truthy (JFloat (Finite s m e)) = (m \<noteq> 0)"
| "truthy (JFloat (Infinity s)) = True"
| "truthy (JFloat NaN) = True"
| "truthy (JStr s) = (s \<noteq> [])"
| "truthy (JList xs) = (xs \<noteq> [])"
| "truthy (JDict kvs) = (kvs \<noteq> [])"

text \<open>\<^verbatim>\<open>x or y\<close>.\<close>

definition py_or :: "json \<Rightarrow> json \<Rightarrow> json" where
  "py_or x y = (if truthy x then x else y)"

text \<open>
  \<^verbatim>\<open>x.get(key)\<close>: only a \<^verbatim>\<open>dict\<close> has the method; a missing key gives
  \<^verbatim>\<open>None\<close>; every other object raises \<^verbatim>\<open>AttributeError\<close>.
\<close>

fun dict_get :: "json \<Rightarrow> string \<Rightarrow> exc + json" where
  "dict_get (JDict kvs) key = Inr (case map_of kvs key of None \<Rightarrow> JNull | Some v \<Rightarrow> v)"
| "dict_get _ key = Inl AttributeError"

text \<open>
  The elements a \<^verbatim>\<open>for\<close> loop (through \<^verbatim>\<open>enumerate\<close>) draws from an object: the
  items of a list, the keys of a dict, the one-character strings of a string; anything else
  is not iterable and raises \<^verbatim>\<open>TypeError\<close>.
\<close>

fun py_iter :: "json \<Rightarrow> exc + json list" where
  "py_iter (JList xs) = Inr xs"
| "py_iter (JDict kvs) = Inr (map (\<lambda>kv. JStr (fst kv)) kvs)"
| "py_iter (JStr s) = Inr (map (\<lambda>c. JStr [c]) s)"
| "py_iter _ = Inl TypeError"

text \<open>\<^verbatim>\<open>isinstance(x, dict)\<close>.\<close>

fun is_dict :: "json \<Rightarrow> bool" where
  "is_dict (JDict kvs) = True"
| "is_dict _ = False"

subsection \<open>LabelMatcher: \<^verbatim>\<open>has_target_label\<close>\<close>

definition has_target_label :: "config \<Rightarrow> json \<Rightarrow> exc + bool" where
  "has_target_label cfg obj =
     bind_exc (dict_get obj ''metadata'') (\<lambda>md.
     bind_exc (dict_get (py_or md (JDict [])) ''labels'') (\<lambda>lb.
     (let labels = py_or lb (JDict []) in
      bind_exc (dict_get labels (LABEL_KEY cfg)) (\<lambda>v.
      Inr (v = JStr (LABEL_VALUE cfg))))))"

subsection \<open>ContainerPatchBuilder: \<^verbatim>\<open>patches_for_volume_mounts\<close>\<close>

text \<open>One RFC 6902 operation, the dict with the keys \<^verbatim>\<open>op\<close>, \<^verbatim>\<open>path\<close>, \<^verbatim>\<open>value\<close>.\<close>

record patch_op =
  op :: string
  path :: string
  val :: string

text \<open>The decimal digits an f-string writes for a non-negative index.\<close>

definition digit_char :: "nat \<Rightarrow> char" where
  "digit_char d = char_of (48 + d)"

function show_nat :: "nat \<Rightarrow> string" where
  "show_nat n = (if n < 10 then [digit_char n] else show_nat (n div 10) @ [digit_char (n mod 10)])"
  by pat_completeness auto
termination
  by (relation "measure id") auto

declare show_nat.simps [simp del]

definition mount_pointer :: "string \<Rightarrow> nat \<Rightarrow> nat \<Rightarrow> string" where
  "mount_pointer base_path container_index mount_index =
     base_path @ ''/'' @ show_nat container_index @ ''/volumeMounts/'' @
     show_nat mount_index @ ''/mountPath''"

text \<open>
  The body of the inner loop once \<^verbatim>\<open>mount.get("mountPath")\<close> has returned: a value
  that is not a string is skipped, a string under the source prefix whose rewriting differs
  from it appends one operation to \<^verbatim>\<open>patches\<close>.
\<close>

definition mount_step ::
  "config \<Rightarrow> string \<Rightarrow> nat \<Rightarrow> nat \<Rightarrow> json \<Rightarrow> patch_op list \<Rightarrow> patch_op list" where
  "mount_step cfg base_path container_index mount_index mount_path patches =
     (let from_exact = REWRITE_FROM cfg;
          from_prefix = rstrip_slash (REWRITE_FROM cfg) @ ''/''
      in case mount_path of
           JStr mp \<Rightarrow>
             if mp = from_exact \<or> startswith mp from_prefix then
               (let new_path = replace_home_path cfg mp
                in if new_path \<noteq> mp then
                     patches @
                       [\<lparr>op = ''replace'',
                         path = mount_pointer base_path container_index mount_index,
                         val = new_path\<rparr>]
                   else patches)
             else patches
         | _ \<Rightarrow> patches)"

text \<open>The inner loop, over the mounts left from index \<open>mount_index\<close> on.\<close>

fun mount_loop ::
  "config \<Rightarrow> string \<Rightarrow> nat \<Rightarrow> nat \<Rightarrow> json list \<Rightarrow> patch_op list \<Rightarrow> exc + patch_op list" where
  "mount_loop cfg base_path container_index mount_index [] patches = Inr patches"
| "mount_loop cfg base_path container_index mount_index (mount # rest) patches =
     (case dict_get mount ''mountPath'' of
        Inl e \<Rightarrow> Inl e
      | Inr mount_path \<Rightarrow>
          mount_loop cfg base_path container_index (Suc mount_index) rest
            (mount_step cfg base_path container_index mount_index mount_path patches))"

text \<open>The outer loop, over the containers left from index \<open>container_index\<close> on.\<close>

fun container_loop ::
  "config \<Rightarrow> string \<Rightarrow> nat \<Rightarrow> json list \<Rightarrow> patch_op list \<Rightarrow> exc + patch_op list" where
  "container_loop cfg base_path container_index [] patches = Inr patches"
| "container_loop cfg base_path container_index (container # rest) patches =
     (case dict_get container ''volumeMounts'' of
        Inl e \<Rightarrow> Inl e
      | Inr vm \<Rightarrow>
          (case py_iter (py_or vm (JList [])) of
             Inl e \<Rightarrow> Inl e
           | Inr volume_mounts \<Rightarrow>
               (case mount_loop cfg base_path container_index 0 volume_mounts patches of
                  Inl e \<Rightarrow> Inl e
                | Inr patches' \<Rightarrow>
                    container_loop cfg base_path (Suc container_index) rest patches')))"

definition patches_for_volume_mounts :: "config \<Rightarrow> string \<Rightarrow> json \<Rightarrow> exc + patch_op list" where
  "patches_for_volume_mounts cfg base_path containers =
     bind_exc (py_iter (py_or containers (JList []))) (\<lambda>cs.
     container_loop cfg base_path 0 cs [])"

subsection \<open>ResourcePatchPlanner: \<^verbatim>\<open>build_patches\<close>\<close>

text \<open>
  \<^verbatim>\<open>kind\<close> is whatever the request held under \<^verbatim>\<open>kind.kind\<close>; it is compared with
  the two strings by \<^verbatim>\<open>==\<close>, which no non-string equals.
\<close>

definition build_patches :: "config \<Rightarrow> json \<Rightarrow> json \<Rightarrow> exc + patch_op list" where
  "build_patches cfg knd obj =
     (if knd = JStr ''Pod'' then
        bind_exc (dict_get obj ''spec'') (\<lambda>sp.
        (let spec = py_or sp (JDict []) in
         bind_exc (dict_get spec ''containers'') (\<lambda>c.
         (let containers = py_or c (JList []) in
          bind_exc (dict_get spec ''initContainers'') (\<lambda>ic.
          (let init_containers = py_or ic (JList []) in
           bind_exc (patches_for_volume_mounts cfg ''/spec/containers'' containers) (\<lambda>ps1.
           bind_exc (patches_for_volume_mounts cfg ''/spec/initContainers'' init_containers) (\<lambda>ps2.
           Inr (ps1 @ ps2)))))))))
      else if knd = JStr ''Deployment'' then
        bind_exc (dict_get obj ''spec'') (\<lambda>sp.
        bind_exc (dict_get (py_or sp (JDict [])) ''template'') (\<lambda>tp.
        bind_exc (dict_get (py_or tp (JDict [])) ''spec'') (\<lambda>ts.
        (let template_spec = py_or ts (JDict []) in
         bind_exc (dict_get template_spec ''containers'') (\<lambda>c.
         (let containers = py_or c (JList []) in
          bind_exc (dict_get template_spec ''initContainers'') (\<lambda>ic.
          (let init_containers = py_or ic (JList []) in
           bind_exc (patches_for_volume_mounts cfg ''/spec/template/spec/containers'' containers) (\<lambda>ps1.
           bind_exc (patches_for_volume_mounts cfg ''/spec/template/spec/initContainers''
                       init_containers) (\<lambda>ps2.
           Inr (ps1 @ ps2)))))))))))
      else Inr [])"

subsection \<open>Serialising the patch: \<^verbatim>\<open>json.dumps\<close>, UTF-8 and base64\<close>

text \<open>
  \<^verbatim>\<open>json.dumps\<close> with its defaults (ASCII only, a comma and a space between items, a
  colon and a space after a key, keys in insertion order) on a list of operations. Inside a
  string the quote and the backslash are escaped with a backslash, backspace, form feed,
  newline, carriage return and tab have their letter, and every other character outside
  space to tilde is written as a backslash, \<^verbatim>\<open>u00\<close> and two lower-case hexadecimal
  digits.
\<close>

definition hex_digit :: "nat \<Rightarrow> char" where
  "hex_digit d = (if d < 10 then char_of (48 + d) else char_of (87 + d))"

definition json_escape_char :: "char \<Rightarrow> string" where
  "json_escape_char c =
     (let n = (of_char c :: nat) in
      if n = 0x22 then [CHR 0x5C, CHR 0x22]
      else if n = 0x5C then [CHR 0x5C, CHR 0x5C]
      else if n = 0x08 then [CHR 0x5C, CHR ''b'']
      else if n = 0x0C then [CHR 0x5C, CHR ''f'']
      else if n = 0x0A then [CHR 0x5C, CHR ''n'']
      else if n = 0x0D then [CHR 0x5C, CHR ''r'']
      else if n = 0x09 then [CHR 0x5C, CHR ''t'']
      else if 0x20 \<le> n \<and> n \<le> 0x7E then [c]
      else [CHR 0x5C, CHR ''u'', CHR ''0'', CHR ''0'', hex_digit (n div 16), hex_digit (n mod 16)])"

definition json_string :: "string \<Rightarrow> string" where
  "json_string s = [CHR 0x22] @ concat (map json_escape_char s) @ [CHR 0x22]"

definition json_dumps_op :: "patch_op \<Rightarrow> string" where
  "json_dumps_op p =
     ''{'' @ json_string ''op'' @ '': '' @ json_string (op p) @ '', '' @
     json_string ''path'' @ '': '' @ json_string (path p) @ '', '' @
     json_string ''value'' @ '': '' @ json_string (val p) @ ''}''"

fun join_comma :: "string list \<Rightarrow> string" where
  "join_comma [] = []"
| "join_comma [x] = x"
| "join_comma (x # y # zs) = x @ '', '' @ join_comma (y # zs)"

definition json_dumps :: "patch_op list \<Rightarrow> string" where
  "json_dumps ops = ''['' @ join_comma (map json_dumps_op ops) @ '']''"

text \<open>\<^verbatim>\<open>s.encode("utf-8")\<close>, a byte being a number below 256.\<close>

definition utf8_encode :: "string \<Rightarrow> nat list" where
  "utf8_encode s =
     concat (map (\<lambda>c. let n = (of_char c :: nat) in
                       if n < 128 then [n] else [192 + n div 64, 128 + n mod 64]) s)"

text \<open>\<^verbatim>\<open>base64.b64encode\<close>: the standard alphabet, padded with the equals sign.\<close>

definition b64_char :: "nat \<Rightarrow> nat" where
  "b64_char i =
     (if i < 26 then 65 + i
      else if i < 52 then 97 + (i - 26)
      else if i < 62 then 48 + (i - 52)
      else if i = 62 then 43 else 47)"

fun b64encode :: "nat list \<Rightarrow> nat list" where
  "b64encode (a # b # c # rest) =
     [b64_char (a div 4), b64_char ((a mod 4) * 16 + b div 16),
      b64_char ((b mod 16) * 4 + c div 64), b64_char (c mod 64)] @ b64encode rest"
| "b64encode [a, b] =
     [b64_char (a div 4), b64_char ((a mod 4) * 16 + b div 16), b64_char ((b mod 16) * 4), 61]"
| "b64encode [a] = [b64_char (a div 4), b64_char ((a mod 4) * 16), 61, 61]"
| "b64encode [] = []"

text \<open>\<^verbatim>\<open>bs.decode("utf-8")\<close> on the bytes of a base64 text, all of them ASCII.\<close>

definition decode_ascii :: "nat list \<Rightarrow> string" where
  "decode_ascii bs = map char_of bs"

subsection \<open>AdmissionHandler: \<^verbatim>\<open>mutate\<close>\<close>

text \<open>
  The \<^verbatim>\<open>response\<close> dict and the AdmissionReview around it. \<^verbatim>\<open>uid\<close> is always a key of
  the dict and holds \<^verbatim>\<open>None\<close> (\<open>JNull\<close>) when the request gave none; \<^verbatim>\<open>patch\<close> and
  \<^verbatim>\<open>patchType\<close> are keys only when they were assigned.
\<close>

record admission_response =
  uid :: json
  allowed :: bool
  patch :: "string option"
  patchType :: "string option"

record admission_review =
  apiVersion :: string
  kind :: string
  response :: admission_response

definition BLANK_ADMISSIONREVIEW :: "admission_response \<Rightarrow> admission_review" where
  "BLANK_ADMISSIONREVIEW resp =
     \<lparr>apiVersion = ''admission.k8s.io/v1'', kind = ''AdmissionReview'', response = resp\<rparr>"

text \<open>
  The request body as Flask hands it over: \<open>None\<close> when the bytes are not a JSON document,
  so that \<^verbatim>\<open>request.get_json(force=True, silent=False)\<close> raises and the later
  \<^verbatim>\<open>request.get_json(silent=True)\<close> returns \<^verbatim>\<open>None\<close>; otherwise the decoded document,
  which both calls return.
\<close>

definition get_json :: "json option \<Rightarrow> exc + json" where
  "get_json raw = (case raw of None \<Rightarrow> Inl BadRequest | Some body \<Rightarrow> Inr body)"

definition get_json_silent :: "json option \<Rightarrow> json" where
  "get_json_silent raw = (case raw of None \<Rightarrow> JNull | Some body \<Rightarrow> body)"

text \<open>
  \<^verbatim>\<open>x.upper()\<close>: only a string has the method. The upper-cased operation is used in the log
  line alone, so the model keeps whether the call raises and drops its result.
\<close>

fun py_upper :: "json \<Rightarrow> exc + unit" where
  "py_upper (JStr s) = Inr ()"
| "py_upper _ = Inl AttributeError"

text \<open>
  The statements from the \<^verbatim>\<open>isinstance\<close> check to the assignment of \<^verbatim>\<open>obj\<close>: the uid,
  the kind and the embedded object of a decoded body.
\<close>

definition extract_request :: "json \<Rightarrow> exc + (json \<times> json \<times> json)" where
  "extract_request body =
     (if \<not> is_dict body then Inl ValueError
      else
        bind_exc (dict_get (py_or body (JDict [])) ''request'') (\<lambda>r.
        (let req = py_or r (JDict []) in
         bind_exc (dict_get req ''uid'') (\<lambda>u.
         bind_exc (dict_get req ''kind'') (\<lambda>k.
         (let kind_info = py_or k (JDict []) in
          bind_exc (dict_get kind_info ''kind'') (\<lambda>knd.
          bind_exc (dict_get req ''operation'') (\<lambda>opn.
          bind_exc (py_upper (py_or opn (JStr []))) (\<lambda>operation.
          bind_exc (dict_get req ''object'') (\<lambda>ob.
          Inr (u, knd, py_or ob (JDict []))))))))))))"

text \<open>
  The body of the \<^verbatim>\<open>try\<close> block. The log call after a patch is attached sits in a
  \<^verbatim>\<open>try\<close> of its own that swallows everything, and changes nothing in the response.
\<close>

definition mutate_try :: "config \<Rightarrow> json option \<Rightarrow> exc + admission_response" where
  "mutate_try cfg raw =
     bind_exc (get_json raw) (\<lambda>body.
     bind_exc (extract_request body) (\<lambda>(u, knd, obj).
     (let resp = \<lparr>uid = u, allowed = True, patch = None, patchType = None\<rparr> in
      if knd = JStr ''Pod'' \<or> knd = JStr ''Deployment'' then
        bind_exc (has_target_label cfg obj) (\<lambda>labelled.
        if labelled then
          bind_exc (build_patches cfg knd obj) (\<lambda>ops.
          if ops \<noteq> [] then
            (let patch_bytes = utf8_encode (json_dumps ops) in
             Inr (resp\<lparr>patch := Some (decode_ascii (b64encode patch_bytes)),
                       patchType := Some ''JSONPatch''\<rparr>))
          else Inr resp)
        else Inr resp)
      else Inr resp)))"

text \<open>
  The \<^verbatim>\<open>except\<close> branch reads the uid again, inside a \<^verbatim>\<open>try\<close> that leaves
  \<^verbatim>\<open>None\<close> when the reading itself raises.
\<close>

definition fail_uid :: "json option \<Rightarrow> json" where
  "fail_uid raw =
     (case bind_exc (dict_get (py_or (get_json_silent raw) (JDict [])) ''request'') (\<lambda>r.
             dict_get (py_or r (JDict [])) ''uid'') of
        Inl e \<Rightarrow> JNull
      | Inr u \<Rightarrow> u)"

definition mutate :: "config \<Rightarrow> json option \<Rightarrow> admission_review" where
  "mutate cfg raw =
     (case mutate_try cfg raw of
        Inr resp \<Rightarrow> BLANK_ADMISSIONREVIEW resp
      | Inl e \<Rightarrow>
          BLANK_ADMISSIONREVIEW
            \<lparr>uid = fail_uid raw, allowed = True, patch = None, patchType = None\<rparr>)"

text \<open>
  The operation sequence one request makes the handler compute: the result of
  \<^const>\<open>build_patches\<close> when the gate on kind and label lets the object through, and no
  operation when it does not.
\<close>

definition admission_ops :: "config \<Rightarrow> json \<Rightarrow> json \<Rightarrow> exc + patch_op list" where
  "admission_ops cfg knd obj =
     (if knd = JStr ''Pod'' \<or> knd = JStr ''Deployment'' then
        bind_exc (has_target_label cfg obj) (\<lambda>labelled.
        if labelled then build_patches cfg knd obj else Inr [])
      else Inr [])"

subsection \<open>Reading a document without raising\<close>

text \<open>
  Total readings of a document, used to state what a request holds whether or not the
  handler gets through it: \<open>field v k\<close> is \<^verbatim>\<open>(v or {}).get(k)\<close> with \<^verbatim>\<open>None\<close> where the
  call would raise, and \<open>items v\<close> is what a loop over \<^verbatim>\<open>v or []\<close> visits, nothing
  where the loop would raise.
\<close>

definition field :: "json \<Rightarrow> string \<Rightarrow> json" where
  "field v k = (case dict_get (py_or v (JDict [])) k of Inl e \<Rightarrow> JNull | Inr x \<Rightarrow> x)"

definition items :: "json \<Rightarrow> json list" where
  "items v = (case py_iter (py_or v (JList [])) of Inl e \<Rightarrow> [] | Inr xs \<Rightarrow> xs)"

text \<open>The \<^verbatim>\<open>mountPath\<close> of mount \<open>j\<close> of container \<open>i\<close> of a container list.\<close>

definition mount_path_at :: "json \<Rightarrow> nat \<Rightarrow> nat \<Rightarrow> json" where
  "mount_path_at containers i j =
     (if i < length (items containers) then
        (let ms = items (field (items containers ! i) ''volumeMounts'')
         in if j < length ms then field (ms ! j) ''mountPath'' else JNull)
      else JNull)"

text \<open>
  A mount path is rewritten when it is the source prefix or lies under it, and the
  rewriting changes it.
\<close>

definition needs_rewrite :: "config \<Rightarrow> string \<Rightarrow> bool" where
  "needs_rewrite cfg mp =
     ((mp = REWRITE_FROM cfg \<or> prefix (rstrip_slash (REWRITE_FROM cfg) @ ''/'') mp) \<and>
      replace_home_path cfg mp \<noteq> mp)"

text \<open>
  \<open>p\<close> is the operation for one mount of a container list at \<open>base\<close>: for some
  container index \<open>i\<close> and mount index \<open>j\<close> of the list, whose mount path is a string
  that is rewritten, it replaces the value at \<open>base/i/volumeMounts/j/mountPath\<close>, the
  two indices written in decimal, by the rewritten path.
\<close>

definition op_for_mount_of :: "config \<Rightarrow> string \<Rightarrow> json \<Rightarrow> patch_op \<Rightarrow> bool" where
  "op_for_mount_of cfg base containers p =
     (\<exists>i j mp. mount_path_at containers i j = JStr mp \<and> needs_rewrite cfg mp \<and>
        p = \<lparr>op = ''replace'',
             path = base @ ''/'' @ show_nat i @ ''/volumeMounts/'' @ show_nat j @ ''/mountPath'',
             val = replace_home_path cfg mp\<rparr>)"

definition emitted_for :: "config \<Rightarrow> string \<Rightarrow> nat \<Rightarrow> nat \<Rightarrow> json \<Rightarrow> patch_op \<Rightarrow> bool" where
  "emitted_for cfg base i j v p =
     (\<exists>mp. v = JStr mp \<and> needs_rewrite cfg mp \<and>
        p = \<lparr>op = ''replace'', path = mount_pointer base i j, val = replace_home_path cfg mp\<rparr>)"

text \<open>
  Reading an index back from its text: the number a string of decimal digits denotes, and
  whether a string is a non-empty run of decimal digits.
\<close>

definition decimal_value :: "string \<Rightarrow> nat" where
  "decimal_value s = foldl (\<lambda>a c. 10 * a + (of_char c - 48)) 0 s"

definition all_digits :: "string \<Rightarrow> bool" where
  "all_digits s = (s \<noteq> [] \<and> list_all (\<lambda>c. 48 \<le> (of_char c :: nat) \<and> (of_char c :: nat) \<le> 57) s)"

text \<open>
  The object carries the configured label: its \<^verbatim>\<open>metadata.labels\<close> holds the key with a
  string equal to the configured value.
\<close>

definition carries_label :: "config \<Rightarrow> json \<Rightarrow> bool" where
  "carries_label cfg obj =
     (field (field (field obj ''metadata'') ''labels'') (LABEL_KEY cfg) = JStr (LABEL_VALUE cfg))"

text \<open>The uid, the kind and the embedded object of a request body.\<close>

definition req_uid :: "json option \<Rightarrow> json" where
  "req_uid raw = field (field (get_json_silent raw) ''request'') ''uid''"

definition req_kind :: "json option \<Rightarrow> json" where
  "req_kind raw = field (field (field (get_json_silent raw) ''request'') ''kind'') ''kind''"

definition req_object :: "json option \<Rightarrow> json" where
  "req_object raw = py_or (field (field (get_json_silent raw) ''request'') ''object'') (JDict [])"

text \<open>
  Shapes on which the accessors do not raise: a mapping where one is read, or any value
  that counts as false (\<^verbatim>\<open>None\<close>, \<^verbatim>\<open>False\<close>, zero, an empty string, list or dict); a
  list of mappings where one is walked, or any value that counts as false.
\<close>

definition dict_or_falsy :: "json \<Rightarrow> bool" where
  "dict_or_falsy v = (is_dict v \<or> \<not> truthy v)"

definition mounts_ok :: "json \<Rightarrow> bool" where
  "mounts_ok v = (case v of JList ms \<Rightarrow> list_all is_dict ms | _ \<Rightarrow> \<not> truthy v)"

definition container_ok :: "json \<Rightarrow> bool" where
  "container_ok c = (is_dict c \<and> mounts_ok (field c ''volumeMounts''))"

definition containers_ok :: "json \<Rightarrow> bool" where
  "containers_ok v = (case v of JList cs \<Rightarrow> list_all container_ok cs | _ \<Rightarrow> \<not> truthy v)"

definition labels_readable :: "json \<Rightarrow> bool" where
  "labels_readable obj =
     (is_dict obj \<and> dict_or_falsy (field obj ''metadata'') \<and>
      dict_or_falsy (field (field obj ''metadata'') ''labels''))"

definition pod_readable :: "json \<Rightarrow> bool" where
  "pod_readable obj =
     (is_dict obj \<and> dict_or_falsy (field obj ''spec'') \<and>
      containers_ok (field (field obj ''spec'') ''containers'') \<and>
      containers_ok (field (field obj ''spec'') ''initContainers''))"

definition deployment_readable :: "json \<Rightarrow> bool" where
  "deployment_readable obj =
     (is_dict obj \<and> dict_or_falsy (field obj ''spec'') \<and>
      dict_or_falsy (field (field obj ''spec'') ''template'') \<and>
      dict_or_falsy (field (field (field obj ''spec'') ''template'') ''spec'') \<and>
      containers_ok (field (field (field (field obj ''spec'') ''template'') ''spec'') ''containers'') \<and>
      containers_ok
        (field (field (field (field obj ''spec'') ''template'') ''spec'') ''initContainers''))"

subsection \<open>Example documents\<close>

definition mount :: "string \<Rightarrow> json" where
  "mount p = JDict [(''name'', JStr ''vol''), (''mountPath'', JStr p)]"

definition container :: "string list \<Rightarrow> json" where
  "container ps = JDict [(''name'', JStr ''app''), (''volumeMounts'', JList (map mount ps))]"

definition target_labels :: json where
  "target_labels = JDict [(''labels'', JDict [(''nfs-home'', JStr ''true'')])]"

text \<open>A labelled Pod with one container and the mounts \<open>/home\<close>, \<open>/data\<close>, \<open>/home/x\<close>.\<close>

definition example_pod :: json where
  "example_pod =
     JDict [(''metadata'', target_labels),
            (''spec'', JDict [(''containers'', JList [container [''/home'', ''/data'', ''/home/x'']])])]"

text \<open>A labelled Deployment with one mount in each container list of its pod template.\<close>

definition example_deployment :: json where
  "example_deployment =
     JDict [(''metadata'', target_labels),
            (''spec'', JDict [(''template'',
               JDict [(''spec'', JDict [(''containers'', JList [container [''/home'']]),
                                        (''initContainers'', JList [container [''/home'']])])])])]"

text \<open>
  A Deployment whose pod template carries the label while the Deployment itself has no
  labels.
\<close>

definition example_template_labelled :: json where
  "example_template_labelled =
     JDict [(''metadata'', JDict [(''name'', JStr ''web'')]),
            (''spec'', JDict [(''template'',
               JDict [(''metadata'', target_labels),
                      (''spec'', JDict [(''containers'', JList [container [''/home'']])])])])]"

text \<open>An AdmissionReview request around an object.\<close>

definition admission_review_of :: "string \<Rightarrow> json \<Rightarrow> json" where
  "admission_review_of k obj =
     JDict [(''apiVersion'', JStr ''admission.k8s.io/v1''), (''kind'', JStr ''AdmissionReview''),
            (''request'', JDict [(''uid'', JStr ''u-1''),
                                 (''kind'', JDict [(''group'', JStr []), (''version'', JStr ''v1''),
                                                   (''kind'', JStr k)]),
                                 (''operation'', JStr ''CREATE''),
                                 (''object'', obj)])]"

text \<open>The operations expected for the labelled Deployment.\<close>

definition example_deployment_ops :: "patch_op list" where
  "example_deployment_ops =
     [\<lparr>op = ''replace'', path = ''/spec/template/spec/containers/0/volumeMounts/0/mountPath'',
        val = ''/blah/home/''\<rparr>,
      \<lparr>op = ''replace'', path = ''/spec/template/spec/initContainers/0/volumeMounts/0/mountPath'',
        val = ''/blah/home/''\<rparr>]"

text \<open>
  A labelled Pod whose rewritten mounts sit at container 1, mount 0 of its containers and
  at container 2, mount 10 of its init containers.
\<close>

definition example_indexed_pod :: json where
  "example_indexed_pod =
     JDict [(''metadata'', target_labels),
            (''spec'',
             JDict [(''containers'', JList [container [''/data''], container [''/home'']]),
                    (''initContainers'',
                     JList [container [], container [''/data''],
                            container (replicate 10 ''/data'' @ [''/home''])])])]"

definition example_indexed_pod_ops :: "patch_op list" where
  "example_indexed_pod_ops =
     [\<lparr>op = ''replace'', path = ''/spec/containers/1/volumeMounts/0/mountPath'',
        val = ''/blah/home/''\<rparr>,
      \<lparr>op = ''replace'', path = ''/spec/initContainers/2/volumeMounts/10/mountPath'',
        val = ''/blah/home/''\<rparr>]"

text \<open>The response to the first example, with the patch the handler attaches.\<close>

definition example_pod_response :: admission_response where
  "example_pod_response =
     \<lparr>uid = JStr ''u-1'', allowed = True,
      patch = Some (''W3sib3AiOiAicmVwbGFjZSIsICJwYXRoIjogIi9zcGVjL2NvbnRhaW5lcnMvMC92b2x1bWVNb3VudHMv'' @
                    ''MC9tb3VudFBhdGgiLCAidmFsdWUiOiAiL2JsYWgvaG9tZS8ifSwgeyJvcCI6ICJyZXBsYWNlIiwgInBh'' @
                    ''dGgiOiAiL3NwZWMvY29udGFpbmVycy8wL3ZvbHVtZU1vdW50cy8yL21vdW50UGF0aCIsICJ2YWx1ZSI6'' @
                    ''ICIvYmxhaC9ob21lIn1d''),
      patchType = Some ''JSONPatch''\<rparr>"

text \<open>A request whose \<^verbatim>\<open>kind\<close> is a bare string where a mapping is expected.\<close>

definition example_malformed_request :: json where
  "example_malformed_request =
     JDict [(''request'', JDict [(''uid'', JStr ''u-2''), (''kind'', JStr ''Pod''),
                                 (''object'', example_pod)])]"

text \<open>A Pod with the mounts of the first example and no labels.\<close>

definition example_unlabelled_pod :: json where
  "example_unlabelled_pod =
     JDict [(''metadata'', JDict [(''name'', JStr ''plain'')]),
            (''spec'', JDict [(''containers'', JList [container [''/home'', ''/data'', ''/home/x'']])])]"

text \<open>
  A Pod with \<^verbatim>\<open>null\<close> metadata, a container with \<^verbatim>\<open>null\<close> mounts, a mount whose path is
  a number, a mount with no path, and no init containers.
\<close>

definition example_sparse_pod :: json where
  "example_sparse_pod =
     JDict [(''metadata'', JNull),
            (''spec'', JDict [(''containers'',
               JList [JDict [(''volumeMounts'', JNull)],
                      JDict [(''volumeMounts'',
                         JList [JDict [(''mountPath'', JInt 5)], JDict [], mount ''/home''])]])])]"

text \<open>A Pod whose \<^verbatim>\<open>metadata\<close> is a string.\<close>

definition example_bad_metadata_pod :: json where
  "example_bad_metadata_pod =
     JDict [(''metadata'', JStr ''x''),
            (''spec'', JDict [(''containers'', JList [container [''/home'']])])]"

section \<open>Properties\<close>

subsection \<open>Strings\<close>

lemma rstrip_slash_decomp: "\<exists>n. s = rstrip_slash s @ replicate n (CHR ''/'')"
proof -
  let ?P = "\<lambda>c. c = CHR ''/''"
  have tw: "takeWhile ?P (rev s) = replicate (length (takeWhile ?P (rev s))) (CHR ''/'')"
    by (rule replicate_length_same [symmetric]) (auto dest: set_takeWhileD)
  have "rev (dropWhile ?P (rev s)) @ rev (takeWhile ?P (rev s)) =
      rev (takeWhile ?P (rev s) @ dropWhile ?P (rev s))"
    by (simp only: rev_append)
  also have "\<dots> = s"
    by (simp only: takeWhile_dropWhile_id rev_rev_ident)
  finally have "s = rstrip_slash s @ rev (takeWhile ?P (rev s))"
    by (simp add: rstrip_slash_def)
  then have "s = rstrip_slash s @ replicate (length (takeWhile ?P (rev s))) (CHR ''/'')"
    using tw by (metis rev_replicate)
  then show ?thesis ..
qed

lemma rstrip_slash_no_trailing: "\<not> suffix ''/'' (rstrip_slash s)"
proof
  let ?P = "\<lambda>c. c = CHR ''/''"
  assume "suffix ''/'' (rstrip_slash s)"
  then obtain zs where "rstrip_slash s = zs @ ''/''" by (auto simp: suffix_def)
  then have "rev (rstrip_slash s) = CHR ''/'' # rev zs" by simp
  then have dw: "dropWhile ?P (rev s) = CHR ''/'' # rev zs"
    by (simp add: rstrip_slash_def)
  then have "dropWhile ?P (rev s) \<noteq> []" by simp
  then have "\<not> ?P (hd (dropWhile ?P (rev s)))" by (rule hd_dropWhile)
  with dw show False by simp
qed

lemma startswith_prefix: "startswith s p \<longleftrightarrow> prefix p s"
proof
  assume "startswith s p"
  then have "s = p @ drop (length p) s"
    unfolding startswith_def by (metis append_take_drop_id)
  then show "prefix p s" by (rule prefixI)
next
  assume "prefix p s"
  then obtain t where "s = p @ t" by (auto simp: prefix_def)
  then show "startswith s p" by (simp add: startswith_def)
qed

subsection \<open>Exceptions and lookups\<close>

lemma bind_exc_Inl [simp]: "bind_exc (Inl e) f = Inl e"
  by (simp add: bind_exc_def)

lemma bind_exc_Inr [simp]: "bind_exc (Inr x) f = f x"
  by (simp add: bind_exc_def)

lemma bind_exc_eq_Inr: "bind_exc m f = Inr y \<longleftrightarrow> (\<exists>x. m = Inr x \<and> f x = Inr y)"
  by (cases m) simp_all

lemma dict_get_Inr: "dict_get v k = Inr x \<Longrightarrow> is_dict v"
  by (cases v) simp_all

lemma dict_get_is_dict: "is_dict v \<Longrightarrow> \<exists>x. dict_get v k = Inr x"
  by (cases v) simp_all

lemma py_or_dict: "is_dict v \<Longrightarrow> py_or v (JDict []) = v"
  by (cases v) (simp_all add: py_or_def)

lemma field_dict_get: "dict_get v k = Inr x \<Longrightarrow> field v k = x"
  by (frule dict_get_Inr) (simp add: field_def py_or_dict)

lemma items_py_iter: "py_iter (py_or v (JList [])) = Inr xs \<Longrightarrow> items v = xs"
  by (simp add: items_def)

subsection \<open>The loops of the patch builder\<close>

lemma mount_step_cases:
  "mount_step cfg base ci mi v acc = acc \<or>
   (\<exists>mp. v = JStr mp \<and> needs_rewrite cfg mp \<and>
      mount_step cfg base ci mi v acc =
        acc @ [\<lparr>op = ''replace'', path = mount_pointer base ci mi, val = replace_home_path cfg mp\<rparr>])"
  by (auto simp: mount_step_def needs_rewrite_def startswith_prefix Let_def split: json.splits)

lemma mount_step_emits:
  assumes "needs_rewrite cfg mp"
  shows "mount_step cfg base ci mi (JStr mp) acc =
    acc @ [\<lparr>op = ''replace'', path = mount_pointer base ci mi, val = replace_home_path cfg mp\<rparr>]"
  using assms by (auto simp: mount_step_def needs_rewrite_def startswith_prefix Let_def)

lemma mount_loop_ops:
  "mount_loop cfg base ci mi ms acc = Inr ps \<Longrightarrow>
   \<exists>new. ps = acc @ new \<and>
     (\<forall>p\<in>set new. \<exists>j<length ms. emitted_for cfg base ci (mi + j) (field (ms ! j) ''mountPath'') p)"
proof (induction ms arbitrary: mi acc)
  case Nil
  then show ?case by simp
next
  case (Cons m rest)
  from Cons.prems obtain v where v: "dict_get m ''mountPath'' = Inr v"
    and run: "mount_loop cfg base ci (Suc mi) rest (mount_step cfg base ci mi v acc) = Inr ps"
    by (auto split: sum.splits)
  from Cons.IH [OF run] obtain new where new: "ps = mount_step cfg base ci mi v acc @ new"
    and each: "\<forall>p\<in>set new. \<exists>j<length rest.
       emitted_for cfg base ci (Suc mi + j) (field (rest ! j) ''mountPath'') p"
    by blast
  have fv: "field m ''mountPath'' = v" using v by (rule field_dict_get)
  have shift: "\<exists>j<length (m # rest). emitted_for cfg base ci (mi + j) (field ((m # rest) ! j) ''mountPath'') p"
    if "p \<in> set new" for p
  proof -
    from each that obtain j where "j < length rest"
      and "emitted_for cfg base ci (Suc mi + j) (field (rest ! j) ''mountPath'') p" by blast
    then have "Suc j < length (m # rest) \<and>
       emitted_for cfg base ci (mi + Suc j) (field ((m # rest) ! Suc j) ''mountPath'') p"
      by simp
    then show ?thesis by blast
  qed
  from mount_step_cases [of cfg base ci mi v acc] show ?case
  proof
    assume "mount_step cfg base ci mi v acc = acc"
    with new shift show ?thesis by auto
  next
    assume "\<exists>mp. v = JStr mp \<and> needs_rewrite cfg mp \<and> mount_step cfg base ci mi v acc =
        acc @ [\<lparr>op = ''replace'', path = mount_pointer base ci mi, val = replace_home_path cfg mp\<rparr>]"
    then obtain mp where mp: "v = JStr mp" and nr: "needs_rewrite cfg mp"
      and st: "mount_step cfg base ci mi v acc =
        acc @ [\<lparr>op = ''replace'', path = mount_pointer base ci mi, val = replace_home_path cfg mp\<rparr>]"
      by blast
    let ?p0 = "\<lparr>op = ''replace'', path = mount_pointer base ci mi, val = replace_home_path cfg mp\<rparr>"
    have p0: "\<exists>j<length (m # rest). emitted_for cfg base ci (mi + j) (field ((m # rest) ! j) ''mountPath'') ?p0"
      using fv mp nr by (intro exI [of _ 0]) (simp add: emitted_for_def)
    have "ps = acc @ (?p0 # new)" using new st by simp
    moreover have "\<forall>p\<in>set (?p0 # new). \<exists>j<length (m # rest).
        emitted_for cfg base ci (mi + j) (field ((m # rest) ! j) ''mountPath'') p"
      using p0 shift by auto
    ultimately show ?thesis by blast
  qed
qed

lemma container_loop_ops:
  "container_loop cfg base ci cs acc = Inr ps \<Longrightarrow>
   \<exists>new. ps = acc @ new \<and>
     (\<forall>p\<in>set new. \<exists>i<length cs. \<exists>j<length (items (field (cs ! i) ''volumeMounts'')).
        emitted_for cfg base (ci + i) j
          (field (items (field (cs ! i) ''volumeMounts'') ! j) ''mountPath'') p)"
proof (induction cs arbitrary: ci acc)
  case Nil
  then show ?case by simp
next
  case (Cons c rest)
  from Cons.prems obtain vm ms mid where vm: "dict_get c ''volumeMounts'' = Inr vm"
    and ms: "py_iter (py_or vm (JList [])) = Inr ms"
    and inner: "mount_loop cfg base ci 0 ms acc = Inr mid"
    and run: "container_loop cfg base (Suc ci) rest mid = Inr ps"
    by (auto split: sum.splits)
  have its: "items (field c ''volumeMounts'') = ms"
    using vm ms by (simp add: field_dict_get items_py_iter)
  from mount_loop_ops [OF inner] obtain new1 where new1: "mid = acc @ new1"
    and each1: "\<forall>p\<in>set new1. \<exists>j<length ms. emitted_for cfg base ci (0 + j) (field (ms ! j) ''mountPath'') p"
    by blast
  from Cons.IH [OF run] obtain new2 where new2: "ps = mid @ new2"
    and each2: "\<forall>p\<in>set new2. \<exists>i<length rest. \<exists>j<length (items (field (rest ! i) ''volumeMounts'')).
        emitted_for cfg base (Suc ci + i) j
          (field (items (field (rest ! i) ''volumeMounts'') ! j) ''mountPath'') p"
    by blast
  let ?Q = "\<lambda>p. \<exists>i<length (c # rest). \<exists>j<length (items (field ((c # rest) ! i) ''volumeMounts'')).
        emitted_for cfg base (ci + i) j
          (field (items (field ((c # rest) ! i) ''volumeMounts'') ! j) ''mountPath'') p"
  have q1: "?Q p" if "p \<in> set new1" for p
  proof -
    from each1 that obtain j where "j < length ms"
      and "emitted_for cfg base ci j (field (ms ! j) ''mountPath'') p" by auto
    then show ?thesis using its by (intro exI [of _ 0]) auto
  qed
  have q2: "?Q p" if "p \<in> set new2" for p
  proof -
    from each2 that obtain i j where "i < length rest"
      and "j < length (items (field (rest ! i) ''volumeMounts''))"
      and "emitted_for cfg base (Suc ci + i) j
          (field (items (field (rest ! i) ''volumeMounts'') ! j) ''mountPath'') p" by blast
    then show ?thesis by (intro exI [of _ "Suc i"]) auto
  qed
  have "ps = acc @ (new1 @ new2)" using new1 new2 by simp
  moreover have "\<forall>p\<in>set (new1 @ new2). ?Q p" using q1 q2 by auto
  ultimately show ?case by blast
qed

lemma patches_for_volume_mounts_ops:
  assumes "patches_for_volume_mounts cfg base containers = Inr ps" and "p \<in> set ps"
  shows "op_for_mount_of cfg base containers p"
proof -
  from assms(1) obtain cs where cs: "py_iter (py_or containers (JList [])) = Inr cs"
    and run: "container_loop cfg base 0 cs [] = Inr ps"
    by (auto simp: patches_for_volume_mounts_def bind_exc_eq_Inr)
  have its: "items containers = cs" using cs by (rule items_py_iter)
  from container_loop_ops [OF run] assms(2) obtain i j where "i < length cs"
    and "j < length (items (field (cs ! i) ''volumeMounts''))"
    and "emitted_for cfg base (0 + i) j
          (field (items (field (cs ! i) ''volumeMounts'') ! j) ''mountPath'') p"
    by auto
  then show ?thesis
    using its by (auto simp: emitted_for_def op_for_mount_of_def mount_path_at_def mount_pointer_def Let_def)
qed

lemma mount_pointer_rooted:
  "prefix (base @ ''/'') (base @ ''/'' @ show_nat i @ ''/volumeMounts/'' @ show_nat j @ ''/mountPath'')"
  by simp

lemma patches_for_volume_mounts_rooted:
  assumes "patches_for_volume_mounts cfg base containers = Inr ps" and "p \<in> set ps"
  shows "prefix (base @ ''/'') (path p)"
  using patches_for_volume_mounts_ops [OF assms] mount_pointer_rooted
  by (auto simp: op_for_mount_of_def)

text \<open>Conversely, every mount that is rewritten has its operation in the result.\<close>

lemma mount_loop_keeps:
  "mount_loop cfg base ci mi ms acc = Inr ps \<Longrightarrow> set acc \<subseteq> set ps"
  using mount_loop_ops [of cfg base ci mi ms acc ps] by auto

lemma container_loop_keeps:
  "container_loop cfg base ci cs acc = Inr ps \<Longrightarrow> set acc \<subseteq> set ps"
  using container_loop_ops [of cfg base ci cs acc ps] by auto

lemma mount_loop_complete:
  assumes "mount_loop cfg base ci mi ms acc = Inr ps" and "j < length ms"
    and "field (ms ! j) ''mountPath'' = JStr mp" and "needs_rewrite cfg mp"
  shows "\<lparr>op = ''replace'', path = mount_pointer base ci (mi + j),
          val = replace_home_path cfg mp\<rparr> \<in> set ps"
  using assms
proof (induction ms arbitrary: mi acc j)
  case Nil
  then show ?case by simp
next
  case (Cons m rest)
  from Cons.prems(1) obtain v where v: "dict_get m ''mountPath'' = Inr v"
    and run: "mount_loop cfg base ci (Suc mi) rest (mount_step cfg base ci mi v acc) = Inr ps"
    by (auto split: sum.splits)
  have fv: "field m ''mountPath'' = v" using v by (rule field_dict_get)
  show ?case
  proof (cases j)
    case 0
    then have "v = JStr mp" using Cons.prems(3) fv by simp
    then have "mount_step cfg base ci mi v acc =
        acc @ [\<lparr>op = ''replace'', path = mount_pointer base ci mi,
                 val = replace_home_path cfg mp\<rparr>]"
      using Cons.prems(4) by (simp add: mount_step_emits)
    then have "\<lparr>op = ''replace'', path = mount_pointer base ci mi,
                 val = replace_home_path cfg mp\<rparr> \<in> set (mount_step cfg base ci mi v acc)"
      by simp
    then show ?thesis using mount_loop_keeps [OF run] 0 by auto
  next
    case (Suc k)
    then have "k < length rest" and "field (rest ! k) ''mountPath'' = JStr mp"
      using Cons.prems(2,3) by simp_all
    from Cons.IH [OF run this Cons.prems(4)] show ?thesis using Suc by simp
  qed
qed

lemma container_loop_complete:
  assumes "container_loop cfg base ci cs acc = Inr ps" and "i < length cs"
    and "j < length (items (field (cs ! i) ''volumeMounts''))"
    and "field (items (field (cs ! i) ''volumeMounts'') ! j) ''mountPath'' = JStr mp"
    and "needs_rewrite cfg mp"
  shows "\<lparr>op = ''replace'', path = mount_pointer base (ci + i) j,
          val = replace_home_path cfg mp\<rparr> \<in> set ps"
  using assms
proof (induction cs arbitrary: ci acc i)
  case Nil
  then show ?case by simp
next
  case (Cons c rest)
  from Cons.prems(1) obtain vm ms mid where vm: "dict_get c ''volumeMounts'' = Inr vm"
    and ms: "py_iter (py_or vm (JList [])) = Inr ms"
    and inner: "mount_loop cfg base ci 0 ms acc = Inr mid"
    and run: "container_loop cfg base (Suc ci) rest mid = Inr ps"
    by (auto split: sum.splits)
  have its: "items (field c ''volumeMounts'') = ms"
    using vm ms by (simp add: field_dict_get items_py_iter)
  show ?case
  proof (cases i)
    case 0
    then have "j < length ms" and "field (ms ! j) ''mountPath'' = JStr mp"
      using Cons.prems(3,4) its by simp_all
    from mount_loop_complete [OF inner this Cons.prems(5)]
    have "\<lparr>op = ''replace'', path = mount_pointer base ci j,
            val = replace_home_path cfg mp\<rparr> \<in> set mid"
      by simp
    then show ?thesis using container_loop_keeps [OF run] 0 by auto
  next
    case (Suc k)
    then have "k < length rest"
      and "j < length (items (field (rest ! k) ''volumeMounts''))"
      and "field (items (field (rest ! k) ''volumeMounts'') ! j) ''mountPath'' = JStr mp"
      using Cons.prems(2,3,4) by simp_all
    from Cons.IH [OF run this Cons.prems(5)] show ?thesis using Suc by simp
  qed
qed

lemma patches_for_volume_mounts_complete:
  assumes "patches_for_volume_mounts cfg base containers = Inr ps"
    and "op_for_mount_of cfg base containers p"
  shows "p \<in> set ps"
proof -
  from assms(1) obtain cs where cs: "py_iter (py_or containers (JList [])) = Inr cs"
    and run: "container_loop cfg base 0 cs [] = Inr ps"
    by (auto simp: patches_for_volume_mounts_def bind_exc_eq_Inr)
  have its: "items containers = cs" using cs by (rule items_py_iter)
  from assms(2) obtain i j mp where at: "mount_path_at containers i j = JStr mp"
    and nr: "needs_rewrite cfg mp"
    and p: "p = \<lparr>op = ''replace'',
             path = base @ ''/'' @ show_nat i @ ''/volumeMounts/'' @ show_nat j @ ''/mountPath'',
             val = replace_home_path cfg mp\<rparr>"
    by (auto simp: op_for_mount_of_def)
  from at its have i: "i < length cs"
    by (auto simp: mount_path_at_def split: if_splits)
  with at its have j: "j < length (items (field (cs ! i) ''volumeMounts''))"
    by (auto simp: mount_path_at_def Let_def split: if_splits)
  with at its i have f: "field (items (field (cs ! i) ''volumeMounts'') ! j) ''mountPath'' = JStr mp"
    by (simp add: mount_path_at_def Let_def)
  from container_loop_complete [OF run i j f nr] show ?thesis
    using p by (simp add: mount_pointer_def)
qed

lemma patches_for_volume_mounts_exact:
  assumes "patches_for_volume_mounts cfg base containers = Inr ps"
  shows "(\<forall>p\<in>set ps. prefix (base @ ''/'') (path p) \<and> op_for_mount_of cfg base containers p)
    \<and> (\<forall>p. op_for_mount_of cfg base containers p \<longrightarrow> p \<in> set ps)"
  using patches_for_volume_mounts_rooted [OF assms] patches_for_volume_mounts_ops [OF assms]
    patches_for_volume_mounts_complete [OF assms]
  by blast

text \<open>The text of an index is its decimal notation.\<close>

lemma decimal_value_snoc: "decimal_value (s @ [c]) = 10 * decimal_value s + (of_char c - 48)"
  by (simp add: decimal_value_def)

lemma of_char_digit_char: "d < 10 \<Longrightarrow> (of_char (digit_char d) :: nat) = 48 + d"
  by (simp add: digit_char_def)

lemma show_nat_decimal: "decimal_value (show_nat n) = n \<and> all_digits (show_nat n)"
proof (induction n rule: show_nat.induct)
  case (1 n)
  show ?case
  proof (cases "n < 10")
    case True
    then have "show_nat n = [digit_char n]"
      by (simp add: show_nat.simps [of n])
    then show ?thesis
      using True by (simp add: decimal_value_def all_digits_def of_char_digit_char)
  next
    case False
    then have s: "show_nat n = show_nat (n div 10) @ [digit_char (n mod 10)]"
      by (simp add: show_nat.simps [of n])
    from 1 False have ih: "decimal_value (show_nat (n div 10)) = n div 10"
      and dg: "all_digits (show_nat (n div 10))"
      by simp_all
    have m: "n mod 10 < 10" by simp
    have "decimal_value (show_nat n) = 10 * (n div 10) + n mod 10"
      using s ih of_char_digit_char [OF m] by (simp add: decimal_value_snoc)
    moreover have "all_digits (show_nat n)"
      using s dg of_char_digit_char [OF m] by (simp add: all_digits_def)
    ultimately show ?thesis by simp
  qed
qed

subsection \<open>The planner\<close>

lemma py_or_idem: "py_or (py_or v d) d = py_or v d"
  by (simp add: py_or_def)

lemma patches_for_volume_mounts_py_or:
  "patches_for_volume_mounts cfg base (py_or v (JList [])) = patches_for_volume_mounts cfg base v"
  by (simp add: patches_for_volume_mounts_def py_or_idem)

lemma field_py_or: "dict_get (py_or v (JDict [])) k = Inr x \<Longrightarrow> field v k = x"
  by (simp add: field_def)

lemma build_patches_Pod:
  assumes "build_patches cfg (JStr ''Pod'') obj = Inr ops"
  shows "\<exists>ps1 ps2. ops = ps1 @ ps2 \<and>
     patches_for_volume_mounts cfg ''/spec/containers''
       (field (field obj ''spec'') ''containers'') = Inr ps1 \<and>
     patches_for_volume_mounts cfg ''/spec/initContainers''
       (field (field obj ''spec'') ''initContainers'') = Inr ps2"
proof -
  from assms obtain sp c ic ps1 ps2 where sp: "dict_get obj ''spec'' = Inr sp"
    and c: "dict_get (py_or sp (JDict [])) ''containers'' = Inr c"
    and ic: "dict_get (py_or sp (JDict [])) ''initContainers'' = Inr ic"
    and ps1: "patches_for_volume_mounts cfg ''/spec/containers'' (py_or c (JList [])) = Inr ps1"
    and ps2: "patches_for_volume_mounts cfg ''/spec/initContainers'' (py_or ic (JList [])) = Inr ps2"
    and ops: "ops = ps1 @ ps2"
    by (auto simp: build_patches_def Let_def bind_exc_eq_Inr)
  have "field obj ''spec'' = sp" using sp by (rule field_dict_get)
  moreover have "field sp ''containers'' = c" using c by (rule field_py_or)
  moreover have "field sp ''initContainers'' = ic" using ic by (rule field_py_or)
  ultimately show ?thesis
    using ps1 ps2 ops by (simp add: patches_for_volume_mounts_py_or)
qed

lemma build_patches_Deployment:
  assumes "build_patches cfg (JStr ''Deployment'') obj = Inr ops"
  shows "\<exists>ps1 ps2. ops = ps1 @ ps2 \<and>
     patches_for_volume_mounts cfg ''/spec/template/spec/containers''
       (field (field (field (field obj ''spec'') ''template'') ''spec'') ''containers'') = Inr ps1 \<and>
     patches_for_volume_mounts cfg ''/spec/template/spec/initContainers''
       (field (field (field (field obj ''spec'') ''template'') ''spec'') ''initContainers'') = Inr ps2"
proof -
  from assms obtain sp tp ts c ic ps1 ps2 where sp: "dict_get obj ''spec'' = Inr sp"
    and tp: "dict_get (py_or sp (JDict [])) ''template'' = Inr tp"
    and ts: "dict_get (py_or tp (JDict [])) ''spec'' = Inr ts"
    and c: "dict_get (py_or ts (JDict [])) ''containers'' = Inr c"
    and ic: "dict_get (py_or ts (JDict [])) ''initContainers'' = Inr ic"
    and ps1: "patches_for_volume_mounts cfg ''/spec/template/spec/containers''
        (py_or c (JList [])) = Inr ps1"
    and ps2: "patches_for_volume_mounts cfg ''/spec/template/spec/initContainers''
        (py_or ic (JList [])) = Inr ps2"
    and ops: "ops = ps1 @ ps2"
    by (auto simp: build_patches_def Let_def bind_exc_eq_Inr)
  have "field obj ''spec'' = sp" using sp by (rule field_dict_get)
  moreover have "field sp ''template'' = tp" using tp by (rule field_py_or)
  moreover have "field tp ''spec'' = ts" using ts by (rule field_py_or)
  moreover have "field ts ''containers'' = c" using c by (rule field_py_or)
  moreover have "field ts ''initContainers'' = ic" using ic by (rule field_py_or)
  ultimately show ?thesis
    using ps1 ps2 ops by (simp add: patches_for_volume_mounts_py_or)
qed

lemma build_patches_other:
  "knd \<noteq> JStr ''Pod'' \<Longrightarrow> knd \<noteq> JStr ''Deployment'' \<Longrightarrow> build_patches cfg knd obj = Inr []"
  by (simp add: build_patches_def)

subsection \<open>The path rewriter\<close>

text \<open>
  What the two slices leave of a path under the source prefix: the text after the prefix's
  last slash loses \<open>len(REWRITE_FROM) - 1\<close> more characters than the prefix had.
\<close>

lemma replace_home_path_descendant:
  assumes "P = rstrip_slash (REWRITE_FROM cfg) @ ''/'' @ T" and "P \<noteq> REWRITE_FROM cfg"
  shows "replace_home_path cfg P =
    rstrip_slash (REWRITE_TO cfg) @ drop (length (REWRITE_FROM cfg)) (''/'' @ T)"
  using assms by (simp add: replace_home_path_def startswith_def Let_def)

text \<open>
  C1 (the code departs from it). The claim: for a source prefix \<open>S\<close>, a destination \<open>D\<close>
  and any suffix \<open>T\<close>, \<open>replace_home_path (S + "/" + T)\<close> is \<open>D\<close> without its trailing
  slashes, a slash, and \<open>T\<close>; under the defaults \<open>/home/alice\<close> becomes
  \<open>/blah/home/alice\<close>. The code slices the path twice and returns \<open>/blah/homee\<close>.
\<close>

theorem replace_home_path_alice:
  "replace_home_path default_config ''/home/alice'' = ''/blah/homee''"
  by (simp add: replace_home_path_def default_config_def rstrip_slash_def startswith_def)

text \<open>
  C3. A path equal to the source prefix is rewritten to the destination prefix with its
  trailing slashes replaced by exactly one: the result is the stripped destination and one
  slash, where the stripped destination is the destination less a run of slashes at its
  end and does not itself end in a slash. Under the defaults \<open>/home\<close> becomes
  \<open>/blah/home/\<close>.
\<close>

theorem replace_home_path_exact:
  "replace_home_path cfg (REWRITE_FROM cfg) = rstrip_slash (REWRITE_TO cfg) @ ''/''
   \<and> (\<exists>n. REWRITE_TO cfg = rstrip_slash (REWRITE_TO cfg) @ replicate n (CHR ''/''))
   \<and> \<not> suffix ''/'' (rstrip_slash (REWRITE_TO cfg))
   \<and> replace_home_path default_config ''/home'' = ''/blah/home/''"
proof -
  have "replace_home_path cfg (REWRITE_FROM cfg) = rstrip_slash (REWRITE_TO cfg) @ ''/''"
    by (simp add: replace_home_path_def)
  moreover have "replace_home_path default_config ''/home'' = ''/blah/home/''"
    by (simp add: replace_home_path_def default_config_def rstrip_slash_def)
  ultimately show ?thesis
    using rstrip_slash_decomp [of "REWRITE_TO cfg"] rstrip_slash_no_trailing [of "REWRITE_TO cfg"]
    by blast
qed

theorem replace_home_path_exact_witness:
  "replace_home_path
     \<lparr>LABEL_KEY = ''nfs-home'', LABEL_VALUE = ''true'',
      REWRITE_FROM = ''/home/'', REWRITE_TO = ''/blah/home///''\<rparr> ''/home/'' = ''/blah/home/''"
  using replace_home_path_exact
    [of "\<lparr>LABEL_KEY = ''nfs-home'', LABEL_VALUE = ''true'',
          REWRITE_FROM = ''/home/'', REWRITE_TO = ''/blah/home///''\<rparr>"]
  by (simp add: rstrip_slash_def)

text \<open>
  C4. A path that is neither the source prefix itself nor begins with the stripped source
  prefix and a slash is returned unchanged.
\<close>

theorem replace_home_path_other:
  assumes "P \<noteq> REWRITE_FROM cfg"
    and "\<not> prefix (rstrip_slash (REWRITE_FROM cfg) @ ''/'') P"
  shows "replace_home_path cfg P = P"
  using assms by (simp add: replace_home_path_def startswith_prefix Let_def)

theorem replace_home_path_other_witness:
  "''/homework'' \<noteq> REWRITE_FROM default_config
   \<and> \<not> prefix (rstrip_slash (REWRITE_FROM default_config) @ ''/'') ''/homework''
   \<and> replace_home_path default_config ''/homework'' = ''/homework''"
proof -
  have a: "''/homework'' \<noteq> REWRITE_FROM default_config"
    by (simp add: default_config_def)
  have b: "\<not> prefix (rstrip_slash (REWRITE_FROM default_config) @ ''/'') ''/homework''"
    by (simp add: default_config_def rstrip_slash_def)
  show ?thesis
    using a b replace_home_path_other [OF a b] by simp
qed

subsection \<open>Patches of the planner\<close>

text \<open>
  C2 (the code departs from it). The claim: under the defaults, a labelled Pod with one
  container whose mounts are \<open>/home\<close>, \<open>/data\<close>, \<open>/home/x\<close> yields exactly two replace
  operations, at mount indices 0 and 2, with the values \<open>/blah/home/\<close> and
  \<open>/blah/home/x\<close>. The code yields two operations at those indices, and the second
  carries the value \<open>/blah/home\<close>.
\<close>

theorem build_patches_example_pod:
  "has_target_label default_config example_pod = Inr True
   \<and> build_patches default_config (JStr ''Pod'') example_pod =
     Inr [\<lparr>op = ''replace'', path = ''/spec/containers/0/volumeMounts/0/mountPath'',
            val = ''/blah/home/''\<rparr>,
          \<lparr>op = ''replace'', path = ''/spec/containers/0/volumeMounts/2/mountPath'',
            val = ''/blah/home''\<rparr>]"
  by code_simp

text \<open>
  C7. \<open>build_patches\<close> dispatches on the kind. For a Pod the result is the operations of
  \<open>spec.containers\<close> followed by those of \<open>spec.initContainers\<close>. The former are rooted
  at \<open>/spec/containers/\<close>, the latter at \<open>/spec/initContainers/\<close>, and the operations
  of a list are exactly those of its rewritten mounts: mount \<open>j\<close> of container \<open>i\<close> of
  that list, counted from 0 within the list, is addressed at
  \<open>base/i/volumeMounts/j/mountPath\<close>. For a Deployment the same holds of the two lists
  under \<open>spec.template.spec\<close>, with the roots \<open>/spec/template/spec/containers/\<close> and
  \<open>/spec/template/spec/initContainers/\<close>, and no path begins with \<open>/spec/containers\<close>.
  For any other kind the result is empty, whatever the object. An index is written as the
  decimal digits that denote it.
\<close>

theorem build_patches_dispatch:
  "(build_patches cfg (JStr ''Pod'') obj = Inr ops \<longrightarrow>
      (\<exists>ps1 ps2. ops = ps1 @ ps2
         \<and> (\<forall>p\<in>set ps1. prefix ''/spec/containers/'' (path p)
               \<and> op_for_mount_of cfg ''/spec/containers''
                    (field (field obj ''spec'') ''containers'') p)
         \<and> (\<forall>p. op_for_mount_of cfg ''/spec/containers''
                    (field (field obj ''spec'') ''containers'') p \<longrightarrow> p \<in> set ps1)
         \<and> (\<forall>p\<in>set ps2. prefix ''/spec/initContainers/'' (path p)
               \<and> op_for_mount_of cfg ''/spec/initContainers''
                    (field (field obj ''spec'') ''initContainers'') p)
         \<and> (\<forall>p. op_for_mount_of cfg ''/spec/initContainers''
                    (field (field obj ''spec'') ''initContainers'') p \<longrightarrow> p \<in> set ps2)))
   \<and> (build_patches cfg (JStr ''Deployment'') obj = Inr ops \<longrightarrow>
      (\<exists>ps1 ps2. ops = ps1 @ ps2
         \<and> (\<forall>p\<in>set ps1. prefix ''/spec/template/spec/containers/'' (path p)
               \<and> op_for_mount_of cfg ''/spec/template/spec/containers''
                    (field (field (field (field obj ''spec'') ''template'') ''spec'') ''containers'') p)
         \<and> (\<forall>p. op_for_mount_of cfg ''/spec/template/spec/containers''
                    (field (field (field (field obj ''spec'') ''template'') ''spec'') ''containers'') p
                \<longrightarrow> p \<in> set ps1)
         \<and> (\<forall>p\<in>set ps2. prefix ''/spec/template/spec/initContainers/'' (path p)
               \<and> op_for_mount_of cfg ''/spec/template/spec/initContainers''
                    (field (field (field (field obj ''spec'') ''template'') ''spec'')
                       ''initContainers'') p)
         \<and> (\<forall>p. op_for_mount_of cfg ''/spec/template/spec/initContainers''
                    (field (field (field (field obj ''spec'') ''template'') ''spec'')
                       ''initContainers'') p
                \<longrightarrow> p \<in> set ps2)
         \<and> (\<forall>p\<in>set ops. \<not> prefix ''/spec/containers'' (path p))))
   \<and> (knd \<noteq> JStr ''Pod'' \<and> knd \<noteq> JStr ''Deployment'' \<longrightarrow> build_patches cfg knd obj = Inr [])
   \<and> decimal_value (show_nat n) = n \<and> all_digits (show_nat n)"
proof (intro conjI impI)
  assume run: "build_patches cfg (JStr ''Pod'') obj = Inr ops"
  let ?c = "field (field obj ''spec'') ''containers''"
  let ?ic = "field (field obj ''spec'') ''initContainers''"
  from build_patches_Pod [OF run] obtain ps1 ps2 where ops: "ops = ps1 @ ps2"
    and ps1: "patches_for_volume_mounts cfg ''/spec/containers'' ?c = Inr ps1"
    and ps2: "patches_for_volume_mounts cfg ''/spec/initContainers'' ?ic = Inr ps2"
    by blast
  from patches_for_volume_mounts_exact [OF ps1]
  have a1: "\<forall>p\<in>set ps1. prefix ''/spec/containers/'' (path p)
        \<and> op_for_mount_of cfg ''/spec/containers'' ?c p"
    and b1: "\<forall>p. op_for_mount_of cfg ''/spec/containers'' ?c p \<longrightarrow> p \<in> set ps1"
    by simp_all
  from patches_for_volume_mounts_exact [OF ps2]
  have a2: "\<forall>p\<in>set ps2. prefix ''/spec/initContainers/'' (path p)
        \<and> op_for_mount_of cfg ''/spec/initContainers'' ?ic p"
    and b2: "\<forall>p. op_for_mount_of cfg ''/spec/initContainers'' ?ic p \<longrightarrow> p \<in> set ps2"
    by simp_all
  show "\<exists>ps1 ps2. ops = ps1 @ ps2
         \<and> (\<forall>p\<in>set ps1. prefix ''/spec/containers/'' (path p)
               \<and> op_for_mount_of cfg ''/spec/containers'' ?c p)
         \<and> (\<forall>p. op_for_mount_of cfg ''/spec/containers'' ?c p \<longrightarrow> p \<in> set ps1)
         \<and> (\<forall>p\<in>set ps2. prefix ''/spec/initContainers/'' (path p)
               \<and> op_for_mount_of cfg ''/spec/initContainers'' ?ic p)
         \<and> (\<forall>p. op_for_mount_of cfg ''/spec/initContainers'' ?ic p \<longrightarrow> p \<in> set ps2)"
    by (intro exI [of _ ps1] exI [of _ ps2] conjI ops a1 b1 a2 b2)
next
  assume run: "build_patches cfg (JStr ''Deployment'') obj = Inr ops"
  let ?ts = "field (field (field obj ''spec'') ''template'') ''spec''"
  let ?c = "field ?ts ''containers''"
  let ?ic = "field ?ts ''initContainers''"
  from build_patches_Deployment [OF run] obtain ps1 ps2 where ops: "ops = ps1 @ ps2"
    and ps1: "patches_for_volume_mounts cfg ''/spec/template/spec/containers'' ?c = Inr ps1"
    and ps2: "patches_for_volume_mounts cfg ''/spec/template/spec/initContainers'' ?ic = Inr ps2"
    by blast
  from patches_for_volume_mounts_exact [OF ps1]
  have a1: "\<forall>p\<in>set ps1. prefix ''/spec/template/spec/containers/'' (path p)
        \<and> op_for_mount_of cfg ''/spec/template/spec/containers'' ?c p"
    and b1: "\<forall>p. op_for_mount_of cfg ''/spec/template/spec/containers'' ?c p \<longrightarrow> p \<in> set ps1"
    by simp_all
  from patches_for_volume_mounts_exact [OF ps2]
  have a2: "\<forall>p\<in>set ps2. prefix ''/spec/template/spec/initContainers/'' (path p)
        \<and> op_for_mount_of cfg ''/spec/template/spec/initContainers'' ?ic p"
    and b2: "\<forall>p. op_for_mount_of cfg ''/spec/template/spec/initContainers'' ?ic p
          \<longrightarrow> p \<in> set ps2"
    by simp_all
  have away: "\<not> prefix ''/spec/containers'' s" if "prefix ''/spec/template/spec/'' s" for s
    using that by (auto simp: prefix_def)
  have t1: "prefix ''/spec/template/spec/'' s" if "prefix ''/spec/template/spec/containers/'' s" for s
    using that by (auto simp: prefix_def)
  have t2: "prefix ''/spec/template/spec/'' s" if "prefix ''/spec/template/spec/initContainers/'' s" for s
    using that by (auto simp: prefix_def)
  have c: "\<forall>p\<in>set ops. \<not> prefix ''/spec/containers'' (path p)"
    using ops a1 a2 away t1 t2 by auto
  show "\<exists>ps1 ps2. ops = ps1 @ ps2
         \<and> (\<forall>p\<in>set ps1. prefix ''/spec/template/spec/containers/'' (path p)
               \<and> op_for_mount_of cfg ''/spec/template/spec/containers'' ?c p)
         \<and> (\<forall>p. op_for_mount_of cfg ''/spec/template/spec/containers'' ?c p \<longrightarrow> p \<in> set ps1)
         \<and> (\<forall>p\<in>set ps2. prefix ''/spec/template/spec/initContainers/'' (path p)
               \<and> op_for_mount_of cfg ''/spec/template/spec/initContainers'' ?ic p)
         \<and> (\<forall>p. op_for_mount_of cfg ''/spec/template/spec/initContainers'' ?ic p
                \<longrightarrow> p \<in> set ps2)
         \<and> (\<forall>p\<in>set ops. \<not> prefix ''/spec/containers'' (path p))"
    by (intro exI [of _ ps1] exI [of _ ps2] conjI ops a1 b1 a2 b2 c)
next
  assume "knd \<noteq> JStr ''Pod'' \<and> knd \<noteq> JStr ''Deployment''"
  then show "build_patches cfg knd obj = Inr []"
    by (simp add: build_patches_other)
next
  show "decimal_value (show_nat n) = n" by (simp add: show_nat_decimal)
  show "all_digits (show_nat n)" by (simp add: show_nat_decimal)
qed

theorem build_patches_dispatch_witness:
  "build_patches default_config (JStr ''Pod'') example_indexed_pod = Inr example_indexed_pod_ops
   \<and> (\<exists>ps1 ps2. example_indexed_pod_ops = ps1 @ ps2
        \<and> (\<forall>p\<in>set ps1. prefix ''/spec/containers/'' (path p)
              \<and> op_for_mount_of default_config ''/spec/containers''
                   (field (field example_indexed_pod ''spec'') ''containers'') p)
        \<and> (\<forall>p. op_for_mount_of default_config ''/spec/containers''
                   (field (field example_indexed_pod ''spec'') ''containers'') p \<longrightarrow> p \<in> set ps1)
        \<and> (\<forall>p\<in>set ps2. prefix ''/spec/initContainers/'' (path p)
              \<and> op_for_mount_of default_config ''/spec/initContainers''
                   (field (field example_indexed_pod ''spec'') ''initContainers'') p)
        \<and> (\<forall>p. op_for_mount_of default_config ''/spec/initContainers''
                   (field (field example_indexed_pod ''spec'') ''initContainers'') p
               \<longrightarrow> p \<in> set ps2))
   \<and> build_patches default_config (JStr ''Deployment'') example_deployment =
        Inr example_deployment_ops
   \<and> list_all (\<lambda>p. \<not> prefix ''/spec/containers'' (path p)) example_deployment_ops
   \<and> JStr ''ConfigMap'' \<noteq> JStr ''Pod'' \<and> JStr ''ConfigMap'' \<noteq> JStr ''Deployment''
   \<and> build_patches default_config (JStr ''ConfigMap'') example_pod = Inr []
   \<and> decimal_value (show_nat 10) = 10 \<and> show_nat 10 = ''10''"
proof -
  have pod: "build_patches default_config (JStr ''Pod'') example_indexed_pod =
      Inr example_indexed_pod_ops"
    by code_simp
  have dep: "build_patches default_config (JStr ''Deployment'') example_deployment =
      Inr example_deployment_ops"
    by code_simp
  have o1: "JStr ''ConfigMap'' \<noteq> JStr ''Pod''" by simp
  have o2: "JStr ''ConfigMap'' \<noteq> JStr ''Deployment''" by simp
  have ten: "show_nat 10 = ''10''" by code_simp
  note d = build_patches_dispatch
  have c1: "\<exists>ps1 ps2. example_indexed_pod_ops = ps1 @ ps2
        \<and> (\<forall>p\<in>set ps1. prefix ''/spec/containers/'' (path p)
              \<and> op_for_mount_of default_config ''/spec/containers''
                   (field (field example_indexed_pod ''spec'') ''containers'') p)
        \<and> (\<forall>p. op_for_mount_of default_config ''/spec/containers''
                   (field (field example_indexed_pod ''spec'') ''containers'') p \<longrightarrow> p \<in> set ps1)
        \<and> (\<forall>p\<in>set ps2. prefix ''/spec/initContainers/'' (path p)
              \<and> op_for_mount_of default_config ''/spec/initContainers''
                   (field (field example_indexed_pod ''spec'') ''initContainers'') p)
        \<and> (\<forall>p. op_for_mount_of default_config ''/spec/initContainers''
                   (field (field example_indexed_pod ''spec'') ''initContainers'') p
               \<longrightarrow> p \<in> set ps2)"
    using d [of default_config example_indexed_pod example_indexed_pod_ops, THEN conjunct1] pod
    by (rule mp)
  have "\<exists>ps1 ps2. example_deployment_ops = ps1 @ ps2
         \<and> (\<forall>p\<in>set ps1. prefix ''/spec/template/spec/containers/'' (path p)
               \<and> op_for_mount_of default_config ''/spec/template/spec/containers''
                    (field (field (field (field example_deployment ''spec'') ''template'') ''spec'')
                       ''containers'') p)
         \<and> (\<forall>p. op_for_mount_of default_config ''/spec/template/spec/containers''
                    (field (field (field (field example_deployment ''spec'') ''template'') ''spec'')
                       ''containers'') p
                \<longrightarrow> p \<in> set ps1)
         \<and> (\<forall>p\<in>set ps2. prefix ''/spec/template/spec/initContainers/'' (path p)
               \<and> op_for_mount_of default_config ''/spec/template/spec/initContainers''
                    (field (field (field (field example_deployment ''spec'') ''template'') ''spec'')
                       ''initContainers'') p)
         \<and> (\<forall>p. op_for_mount_of default_config ''/spec/template/spec/initContainers''
                    (field (field (field (field example_deployment ''spec'') ''template'') ''spec'')
                       ''initContainers'') p
                \<longrightarrow> p \<in> set ps2)
         \<and> (\<forall>p\<in>set example_deployment_ops. \<not> prefix ''/spec/containers'' (path p))"
    using d [of default_config example_deployment example_deployment_ops,
        THEN conjunct2, THEN conjunct1] dep
    by (rule mp)
  then have "\<forall>p\<in>set example_deployment_ops. \<not> prefix ''/spec/containers'' (path p)"
    by (elim exE conjE)
  then have c2: "list_all (\<lambda>p. \<not> prefix ''/spec/containers'' (path p)) example_deployment_ops"
    by (simp only: list_all_iff)
  have c3: "build_patches default_config (JStr ''ConfigMap'') example_pod = Inr []"
    using d [of default_config example_pod "[]" "JStr ''ConfigMap''",
        THEN conjunct2, THEN conjunct2, THEN conjunct1] o1 o2
    by (simp only: simp_thms)
  have c4: "decimal_value (show_nat 10) = 10"
    using d [of default_config example_pod "[]" "JStr ''ConfigMap'' " 10,
        THEN conjunct2, THEN conjunct2, THEN conjunct2, THEN conjunct1] .
  show ?thesis
    by (intro conjI pod c1 dep c2 o1 o2 c3 c4 ten)
qed

subsection \<open>The handler\<close>

lemma extract_request_reads:
  assumes "extract_request body = Inr (u, knd, obj)"
  shows "u = req_uid (Some body) \<and> knd = req_kind (Some body) \<and> obj = req_object (Some body)"
proof -
  from assms obtain r k opn ob where r: "dict_get (py_or body (JDict [])) ''request'' = Inr r"
    and u: "dict_get (py_or r (JDict [])) ''uid'' = Inr u"
    and k: "dict_get (py_or r (JDict [])) ''kind'' = Inr k"
    and knd: "dict_get (py_or k (JDict [])) ''kind'' = Inr knd"
    and ob: "dict_get (py_or r (JDict [])) ''object'' = Inr ob"
    and obj: "obj = py_or ob (JDict [])"
    by (auto simp: extract_request_def Let_def bind_exc_eq_Inr split: if_splits)
  have "field body ''request'' = r" using r by (rule field_py_or)
  moreover have "field r ''uid'' = u" using u by (rule field_py_or)
  moreover have "field r ''kind'' = k" using k by (rule field_py_or)
  moreover have "field k ''kind'' = knd" using knd by (rule field_py_or)
  moreover have "field r ''object'' = ob" using ob by (rule field_py_or)
  ultimately show ?thesis
    using obj by (simp add: req_uid_def req_kind_def req_object_def get_json_silent_def)
qed

lemma fail_uid_req_uid: "fail_uid raw = req_uid raw"
proof (cases "dict_get (py_or (get_json_silent raw) (JDict [])) ''request''")
  case (Inl e)
  then show ?thesis
    by (simp add: fail_uid_def req_uid_def field_def py_or_def)
next
  case (Inr r)
  then show ?thesis
    by (cases "dict_get (py_or r (JDict [])) ''uid''")
      (simp_all add: fail_uid_def req_uid_def field_def)
qed

lemma has_target_label_carries:
  assumes "has_target_label cfg obj = Inr b"
  shows "b = carries_label cfg obj"
proof -
  from assms obtain md lb v where md: "dict_get obj ''metadata'' = Inr md"
    and lb: "dict_get (py_or md (JDict [])) ''labels'' = Inr lb"
    and v: "dict_get (py_or lb (JDict [])) (LABEL_KEY cfg) = Inr v"
    and b: "b = (v = JStr (LABEL_VALUE cfg))"
    by (auto simp: has_target_label_def Let_def bind_exc_eq_Inr)
  have "field obj ''metadata'' = md" using md by (rule field_dict_get)
  moreover have "field md ''labels'' = lb" using lb by (rule field_py_or)
  moreover have "field lb (LABEL_KEY cfg) = v" using v by (rule field_py_or)
  ultimately show ?thesis using b by (simp add: carries_label_def)
qed

text \<open>What a finished \<^verbatim>\<open>try\<close> block returns, in terms of the operations computed.\<close>

lemma mutate_try_Inr:
  assumes "mutate_try cfg raw = Inr resp"
  shows "\<exists>ops. admission_ops cfg (req_kind raw) (req_object raw) = Inr ops \<and>
     resp = (if ops = [] then \<lparr>uid = req_uid raw, allowed = True, patch = None, patchType = None\<rparr>
             else \<lparr>uid = req_uid raw, allowed = True,
                   patch = Some (decode_ascii (b64encode (utf8_encode (json_dumps ops)))),
                   patchType = Some ''JSONPatch''\<rparr>)"
proof -
  from assms obtain body where raw: "raw = Some body"
    by (cases raw) (simp_all add: mutate_try_def get_json_def)
  from assms raw obtain u knd obj where ex: "extract_request body = Inr (u, knd, obj)"
    by (cases "extract_request body") (auto simp: mutate_try_def get_json_def)
  from extract_request_reads [OF ex] raw
  have u: "u = req_uid raw" and knd: "knd = req_kind raw" and obj: "obj = req_object raw"
    by simp_all
  let ?plain = "\<lparr>uid = u, allowed = True, patch = None, patchType = None\<rparr>"
  show ?thesis
  proof (cases "knd = JStr ''Pod'' \<or> knd = JStr ''Deployment''")
    case False
    then have "resp = ?plain" and "admission_ops cfg knd obj = Inr []"
      using assms raw ex by (auto simp: mutate_try_def get_json_def admission_ops_def)
    then show ?thesis using u knd obj by simp
  next
    case gate: True
    from assms raw ex gate obtain lab where lab: "has_target_label cfg obj = Inr lab"
      by (cases "has_target_label cfg obj") (auto simp: mutate_try_def get_json_def)
    show ?thesis
    proof (cases lab)
      case False
      then have "resp = ?plain" and "admission_ops cfg knd obj = Inr []"
        using assms raw ex gate lab by (auto simp: mutate_try_def get_json_def admission_ops_def)
      then show ?thesis using u knd obj by simp
    next
      case True
      from assms raw ex gate lab True obtain ops where ops: "build_patches cfg knd obj = Inr ops"
        by (cases "build_patches cfg knd obj") (auto simp: mutate_try_def get_json_def)
      have a: "admission_ops cfg knd obj = Inr ops"
        using gate lab True ops by (auto simp: admission_ops_def)
      have "resp = (if ops = [] then ?plain
             else \<lparr>uid = u, allowed = True,
                   patch = Some (decode_ascii (b64encode (utf8_encode (json_dumps ops)))),
                   patchType = Some ''JSONPatch''\<rparr>)"
        using assms raw ex gate lab True ops by (auto simp: mutate_try_def get_json_def Let_def)
      then show ?thesis using a u knd obj by auto
    qed
  qed
qed

text \<open>With the gate closed no operation is computed.\<close>

lemma admission_ops_gate_closed:
  assumes "(knd \<noteq> JStr ''Pod'' \<and> knd \<noteq> JStr ''Deployment'') \<or> \<not> carries_label cfg obj"
    and "admission_ops cfg knd obj = Inr ops"
  shows "ops = []"
proof (cases "knd = JStr ''Pod'' \<or> knd = JStr ''Deployment''")
  case False
  then show ?thesis using assms(2) by (auto simp: admission_ops_def)
next
  case True
  then have nc: "\<not> carries_label cfg obj" using assms(1) by auto
  from True assms(2) obtain lab where lab: "has_target_label cfg obj = Inr lab"
    by (cases "has_target_label cfg obj") (auto simp: admission_ops_def)
  then have "\<not> lab" using has_target_label_carries nc by blast
  then show ?thesis using True lab assms(2) by (auto simp: admission_ops_def)
qed

lemma mutate_gate_closed:
  assumes "(req_kind raw \<noteq> JStr ''Pod'' \<and> req_kind raw \<noteq> JStr ''Deployment'')
           \<or> \<not> carries_label cfg (req_object raw)"
  shows "mutate cfg raw =
     BLANK_ADMISSIONREVIEW \<lparr>uid = req_uid raw, allowed = True, patch = None, patchType = None\<rparr>"
proof (cases "mutate_try cfg raw")
  case (Inl e)
  then show ?thesis by (simp add: mutate_def fail_uid_req_uid)
next
  case (Inr resp)
  from mutate_try_Inr [OF Inr] obtain ops
    where a: "admission_ops cfg (req_kind raw) (req_object raw) = Inr ops"
      and r: "resp = (if ops = [] then
                 \<lparr>uid = req_uid raw, allowed = True, patch = None, patchType = None\<rparr>
             else \<lparr>uid = req_uid raw, allowed = True,
                   patch = Some (decode_ascii (b64encode (utf8_encode (json_dumps ops)))),
                   patchType = Some ''JSONPatch''\<rparr>)"
    by blast
  have "ops = []" using assms a by (rule admission_ops_gate_closed)
  then show ?thesis using Inr r by (simp add: mutate_def)
qed

lemma mutate_allowed: "allowed (response (mutate cfg raw))"
proof (cases "mutate_try cfg raw")
  case (Inl e)
  then show ?thesis by (simp add: mutate_def BLANK_ADMISSIONREVIEW_def)
next
  case (Inr resp)
  from mutate_try_Inr [OF Inr] have "allowed resp" by (auto split: if_splits)
  then show ?thesis using Inr by (simp add: mutate_def BLANK_ADMISSIONREVIEW_def)
qed

text \<open>
  C5. When the handler gets through a request without an exception, its response holds
  \<open>patch\<close> and \<open>patchType\<close> exactly when the operation sequence it computed is not
  empty; then \<open>patchType\<close> is \<open>JSONPatch\<close> and \<open>patch\<close> is the base64 text of the UTF-8
  bytes of the JSON serialisation of that sequence.
\<close>

theorem mutate_patch_iff_ops:
  assumes "mutate_try cfg raw = Inr resp"
  shows "mutate cfg raw = BLANK_ADMISSIONREVIEW resp
    \<and> (\<exists>ops. admission_ops cfg (req_kind raw) (req_object raw) = Inr ops
          \<and> (patch resp \<noteq> None \<longleftrightarrow> ops \<noteq> [])
          \<and> (patchType resp \<noteq> None \<longleftrightarrow> ops \<noteq> [])
          \<and> (ops \<noteq> [] \<longrightarrow>
                patchType resp = Some ''JSONPatch''
                \<and> patch resp = Some (decode_ascii (b64encode (utf8_encode (json_dumps ops))))))"
proof -
  have "mutate cfg raw = BLANK_ADMISSIONREVIEW resp"
    using assms by (simp add: mutate_def)
  moreover from mutate_try_Inr [OF assms] obtain ops
    where a: "admission_ops cfg (req_kind raw) (req_object raw) = Inr ops"
      and r: "resp = (if ops = [] then
                 \<lparr>uid = req_uid raw, allowed = True, patch = None, patchType = None\<rparr>
             else \<lparr>uid = req_uid raw, allowed = True,
                   patch = Some (decode_ascii (b64encode (utf8_encode (json_dumps ops)))),
                   patchType = Some ''JSONPatch''\<rparr>)"
    by blast
  have "(patch resp \<noteq> None \<longleftrightarrow> ops \<noteq> [])
          \<and> (patchType resp \<noteq> None \<longleftrightarrow> ops \<noteq> [])
          \<and> (ops \<noteq> [] \<longrightarrow>
                patchType resp = Some ''JSONPatch''
                \<and> patch resp = Some (decode_ascii (b64encode (utf8_encode (json_dumps ops)))))"
    using r by simp
  with a have "\<exists>ops. admission_ops cfg (req_kind raw) (req_object raw) = Inr ops
          \<and> (patch resp \<noteq> None \<longleftrightarrow> ops \<noteq> [])
          \<and> (patchType resp \<noteq> None \<longleftrightarrow> ops \<noteq> [])
          \<and> (ops \<noteq> [] \<longrightarrow>
                patchType resp = Some ''JSONPatch''
                \<and> patch resp = Some (decode_ascii (b64encode (utf8_encode (json_dumps ops)))))"
    by blast
  ultimately show ?thesis by (rule conjI)
qed

theorem mutate_patch_iff_ops_witness:
  "mutate_try default_config (Some (admission_review_of ''Pod'' example_pod)) = Inr example_pod_response
   \<and> mutate default_config (Some (admission_review_of ''Pod'' example_pod)) =
       BLANK_ADMISSIONREVIEW example_pod_response
   \<and> patch example_pod_response \<noteq> None"
proof -
  have run: "mutate_try default_config (Some (admission_review_of ''Pod'' example_pod)) =
      Inr example_pod_response"
    by code_simp
  from mutate_patch_iff_ops [OF run]
  have out: "mutate default_config (Some (admission_review_of ''Pod'' example_pod)) =
      BLANK_ADMISSIONREVIEW example_pod_response"
    by (rule conjunct1)
  have "patch example_pod_response \<noteq> None"
    by (simp add: example_pod_response_def)
  with run out show ?thesis by (intro conjI)
qed

text \<open>
  C6. A request whose kind is neither \<open>Pod\<close> nor \<open>Deployment\<close>, or whose embedded
  object does not carry the configured label with the configured value, is answered with
  \<open>allowed: true\<close> and neither \<open>patch\<close> nor \<open>patchType\<close>, and no patch operation is
  computed for it, whatever the object holds.
\<close>

theorem mutate_not_eligible:
  assumes "(req_kind raw \<noteq> JStr ''Pod'' \<and> req_kind raw \<noteq> JStr ''Deployment'')
           \<or> \<not> carries_label cfg (req_object raw)"
  shows "mutate cfg raw =
      BLANK_ADMISSIONREVIEW \<lparr>uid = req_uid raw, allowed = True, patch = None, patchType = None\<rparr>
    \<and> allowed (response (mutate cfg raw))
    \<and> patch (response (mutate cfg raw)) = None
    \<and> patchType (response (mutate cfg raw)) = None
    \<and> (\<forall>ops. admission_ops cfg (req_kind raw) (req_object raw) = Inr ops \<longrightarrow> ops = [])"
proof -
  have m: "mutate cfg raw =
      BLANK_ADMISSIONREVIEW \<lparr>uid = req_uid raw, allowed = True, patch = None, patchType = None\<rparr>"
    using assms by (rule mutate_gate_closed)
  have "\<forall>ops. admission_ops cfg (req_kind raw) (req_object raw) = Inr ops \<longrightarrow> ops = []"
    using assms admission_ops_gate_closed by blast
  with m show ?thesis by (simp add: BLANK_ADMISSIONREVIEW_def)
qed

theorem mutate_not_eligible_witness:
  "req_kind (Some (admission_review_of ''ConfigMap'' example_pod)) \<noteq> JStr ''Pod''
   \<and> req_kind (Some (admission_review_of ''ConfigMap'' example_pod)) \<noteq> JStr ''Deployment''
   \<and> mutate default_config (Some (admission_review_of ''ConfigMap'' example_pod)) =
       BLANK_ADMISSIONREVIEW \<lparr>uid = JStr ''u-1'', allowed = True, patch = None, patchType = None\<rparr>
   \<and> \<not> carries_label default_config (req_object (Some (admission_review_of ''Pod'' example_unlabelled_pod)))
   \<and> mutate default_config (Some (admission_review_of ''Pod'' example_unlabelled_pod)) =
       BLANK_ADMISSIONREVIEW \<lparr>uid = JStr ''u-1'', allowed = True, patch = None, patchType = None\<rparr>"
proof -
  let ?r1 = "Some (admission_review_of ''ConfigMap'' example_pod)"
  let ?r2 = "Some (admission_review_of ''Pod'' example_unlabelled_pod)"
  have k1: "req_kind ?r1 \<noteq> JStr ''Pod''" by code_simp
  have k2: "req_kind ?r1 \<noteq> JStr ''Deployment''" by code_simp
  have u1: "req_uid ?r1 = JStr ''u-1''" by code_simp
  have l2: "\<not> carries_label default_config (req_object ?r2)" by code_simp
  have u2: "req_uid ?r2 = JStr ''u-1''" by code_simp
  have h1: "(req_kind ?r1 \<noteq> JStr ''Pod'' \<and> req_kind ?r1 \<noteq> JStr ''Deployment'')
      \<or> \<not> carries_label default_config (req_object ?r1)"
    using k1 k2 by (intro disjI1 conjI)
  have h2: "(req_kind ?r2 \<noteq> JStr ''Pod'' \<and> req_kind ?r2 \<noteq> JStr ''Deployment'')
      \<or> \<not> carries_label default_config (req_object ?r2)"
    using l2 by (rule disjI2)
  from mutate_not_eligible [OF h1]
  have m1: "mutate default_config ?r1 =
      BLANK_ADMISSIONREVIEW \<lparr>uid = req_uid ?r1, allowed = True, patch = None, patchType = None\<rparr>"
    by (rule conjunct1)
  from mutate_not_eligible [OF h2]
  have m2: "mutate default_config ?r2 =
      BLANK_ADMISSIONREVIEW \<lparr>uid = req_uid ?r2, allowed = True, patch = None, patchType = None\<rparr>"
    by (rule conjunct1)
  show ?thesis
    using k1 k2 l2 m1 m2 u1 u2 by (simp only: simp_thms)
qed

text \<open>
  C8. Whenever a step of the handler raises, the handler answers \<open>allowed: true\<close> with no
  patch and with the uid read again from the body: that of \<open>request.uid\<close> when the body
  is a mapping whose \<open>request\<close> is a mapping, and none when the body does not parse or
  is not a mapping. A body that does not parse and a body that is not a mapping both
  raise. No request at all is answered with \<open>allowed: false\<close>.
\<close>

theorem mutate_fail_open:
  "(mutate_try cfg raw = Inl e \<longrightarrow>
      mutate cfg raw =
        BLANK_ADMISSIONREVIEW \<lparr>uid = fail_uid raw, allowed = True, patch = None, patchType = None\<rparr>)
   \<and> allowed (response (mutate cfg raw))
   \<and> mutate_try cfg None = Inl BadRequest
   \<and> fail_uid None = JNull
   \<and> (\<not> is_dict body \<longrightarrow>
        mutate_try cfg (Some body) = Inl ValueError \<and> fail_uid (Some body) = JNull)
   \<and> (map_of b ''request'' = Some (JDict r) \<longrightarrow>
        fail_uid (Some (JDict b)) = (case map_of r ''uid'' of None \<Rightarrow> JNull | Some v \<Rightarrow> v))"
proof (intro conjI impI)
  assume "mutate_try cfg raw = Inl e"
  then show "mutate cfg raw =
        BLANK_ADMISSIONREVIEW \<lparr>uid = fail_uid raw, allowed = True, patch = None, patchType = None\<rparr>"
    by (simp add: mutate_def)
next
  show "allowed (response (mutate cfg raw))" by (rule mutate_allowed)
next
  show "mutate_try cfg None = Inl BadRequest"
    by (simp add: mutate_try_def get_json_def)
next
  show "fail_uid None = JNull"
    by (simp add: fail_uid_def get_json_silent_def py_or_def)
next
  assume nd: "\<not> is_dict body"
  show "mutate_try cfg (Some body) = Inl ValueError"
    using nd by (simp add: mutate_try_def get_json_def extract_request_def)
  show "fail_uid (Some body) = JNull"
    using nd by (cases body; cases "truthy body")
      (simp_all add: fail_uid_def get_json_silent_def py_or_def)
next
  assume rq: "map_of b ''request'' = Some (JDict r)"
  then have "b \<noteq> []" by auto
  then show "fail_uid (Some (JDict b)) = (case map_of r ''uid'' of None \<Rightarrow> JNull | Some v \<Rightarrow> v)"
    using rq by (simp add: fail_uid_def get_json_silent_def py_or_def)
qed

theorem mutate_fail_open_witness:
  "mutate_try default_config (Some example_malformed_request) = Inl AttributeError
   \<and> mutate default_config (Some example_malformed_request) =
       BLANK_ADMISSIONREVIEW \<lparr>uid = JStr ''u-2'', allowed = True, patch = None, patchType = None\<rparr>
   \<and> \<not> is_dict (JList [JInt 1])
   \<and> mutate_try default_config (Some (JList [JInt 1])) = Inl ValueError
   \<and> mutate default_config (Some (JList [JInt 1])) =
       BLANK_ADMISSIONREVIEW \<lparr>uid = JNull, allowed = True, patch = None, patchType = None\<rparr>"
proof -
  let ?r = "Some example_malformed_request"
  let ?l = "JList [JInt 1]"
  note t = mutate_fail_open
  have run: "mutate_try default_config ?r = Inl AttributeError" by code_simp
  have fu: "fail_uid ?r = JStr ''u-2''" by code_simp
  have nd: "\<not> is_dict ?l" by simp
  from t [of default_config ?r AttributeError, THEN conjunct1] run
  have m1: "mutate default_config ?r =
      BLANK_ADMISSIONREVIEW \<lparr>uid = fail_uid ?r, allowed = True, patch = None, patchType = None\<rparr>"
    by (rule mp)
  from t [of default_config None BadRequest ?l, THEN conjunct2, THEN conjunct2, THEN conjunct2,
      THEN conjunct2, THEN conjunct1] nd
  have v: "mutate_try default_config (Some ?l) = Inl ValueError \<and> fail_uid (Some ?l) = JNull"
    by (rule mp)
  from t [of default_config "Some ?l" ValueError, THEN conjunct1] v
  have m2: "mutate default_config (Some ?l) =
      BLANK_ADMISSIONREVIEW \<lparr>uid = fail_uid (Some ?l), allowed = True, patch = None, patchType = None\<rparr>"
    by simp
  show ?thesis
    using run m1 fu nd v m2 by simp
qed

text \<open>
  C10. A Deployment is judged by its own \<open>metadata.labels\<close> alone: the labels of its pod
  template play no part. When the Deployment itself does not carry the label, the response
  has no patch and no operation is computed, whatever the template holds; and two objects
  with the same \<open>metadata\<close> get the same answer from the label check.
\<close>

theorem deployment_top_level_labels:
  "(req_kind raw = JStr ''Deployment'' \<and> \<not> carries_label cfg (req_object raw) \<longrightarrow>
      mutate cfg raw =
        BLANK_ADMISSIONREVIEW \<lparr>uid = req_uid raw, allowed = True, patch = None, patchType = None\<rparr>
      \<and> (\<forall>ops. admission_ops cfg (req_kind raw) (req_object raw) = Inr ops \<longrightarrow> ops = []))
   \<and> (dict_get obj ''metadata'' = dict_get obj' ''metadata'' \<longrightarrow>
        has_target_label cfg obj = has_target_label cfg obj')"
proof (intro conjI impI)
  assume h: "req_kind raw = JStr ''Deployment'' \<and> \<not> carries_label cfg (req_object raw)"
  then have g: "(req_kind raw \<noteq> JStr ''Pod'' \<and> req_kind raw \<noteq> JStr ''Deployment'')
      \<or> \<not> carries_label cfg (req_object raw)"
    by simp
  then show "mutate cfg raw =
        BLANK_ADMISSIONREVIEW \<lparr>uid = req_uid raw, allowed = True, patch = None, patchType = None\<rparr>"
    by (rule mutate_gate_closed)
  show "\<forall>ops. admission_ops cfg (req_kind raw) (req_object raw) = Inr ops \<longrightarrow> ops = []"
    using g admission_ops_gate_closed by blast
next
  assume "dict_get obj ''metadata'' = dict_get obj' ''metadata''"
  then show "has_target_label cfg obj = has_target_label cfg obj'"
    by (simp add: has_target_label_def)
qed

theorem deployment_top_level_labels_witness:
  "req_kind (Some (admission_review_of ''Deployment'' example_template_labelled)) = JStr ''Deployment''
   \<and> \<not> carries_label default_config
         (req_object (Some (admission_review_of ''Deployment'' example_template_labelled)))
   \<and> carries_label default_config
         (field (field example_template_labelled ''spec'') ''template'')
   \<and> mutate default_config (Some (admission_review_of ''Deployment'' example_template_labelled)) =
       BLANK_ADMISSIONREVIEW \<lparr>uid = JStr ''u-1'', allowed = True, patch = None, patchType = None\<rparr>"
proof -
  let ?r = "Some (admission_review_of ''Deployment'' example_template_labelled)"
  have k: "req_kind ?r = JStr ''Deployment''" by code_simp
  have l: "\<not> carries_label default_config (req_object ?r)" by code_simp
  have tl: "carries_label default_config (field (field example_template_labelled ''spec'') ''template'')"
    by code_simp
  have u: "req_uid ?r = JStr ''u-1''" by code_simp
  from deployment_top_level_labels [of ?r default_config, THEN conjunct1] k l
  have "mutate default_config ?r =
      BLANK_ADMISSIONREVIEW \<lparr>uid = req_uid ?r, allowed = True, patch = None, patchType = None\<rparr>"
    by blast
  then show ?thesis
    using k l tl u by (simp only: simp_thms)
qed

subsection \<open>Shapes on which the accessors return\<close>

lemma dict_get_not_dict: "\<not> is_dict v \<Longrightarrow> dict_get v k = Inl AttributeError"
  by (cases v) simp_all

lemma dict_get_iff: "(\<exists>x. dict_get v k = Inr x) \<longleftrightarrow> is_dict v"
  by (cases v) simp_all

lemma py_or_dict_iff: "is_dict (py_or v (JDict [])) \<longleftrightarrow> dict_or_falsy v"
  by (cases v) (auto simp: py_or_def dict_or_falsy_def)

lemma mount_loop_total:
  "(\<exists>ps. mount_loop cfg base ci mi ms acc = Inr ps) \<longleftrightarrow> list_all is_dict ms"
proof (induction ms arbitrary: mi acc)
  case Nil
  then show ?case by simp
next
  case (Cons m rest)
  show ?case
  proof (cases "is_dict m")
    case True
    then obtain v where "dict_get m ''mountPath'' = Inr v"
      using dict_get_is_dict by blast
    then show ?thesis using True Cons.IH by simp
  next
    case False
    then show ?thesis by (simp add: dict_get_not_dict)
  qed
qed

lemma py_iter_all:
  assumes "\<And>s. \<not> P (JStr s)"
  shows "(\<exists>xs. py_iter (py_or v (JList [])) = Inr xs \<and> list_all P xs) \<longleftrightarrow>
    (case v of JList xs \<Rightarrow> list_all P xs | _ \<Rightarrow> \<not> truthy v)"
proof (cases v)
  case (JFloat f)
  then show ?thesis by (cases f) (simp_all add: py_or_def)
next
  case (JStr s)
  then show ?thesis using assms by (cases s) (simp_all add: py_or_def)
next
  case (JDict kvs)
  then show ?thesis using assms by (cases kvs) (simp_all add: py_or_def)
qed (simp_all add: py_or_def)

lemma mounts_ok_iff:
  "mounts_ok v \<longleftrightarrow> (\<exists>ms. py_iter (py_or v (JList [])) = Inr ms \<and> list_all is_dict ms)"
  unfolding mounts_ok_def by (rule py_iter_all [symmetric]) simp

lemma containers_ok_iff:
  "containers_ok v \<longleftrightarrow> (\<exists>cs. py_iter (py_or v (JList [])) = Inr cs \<and> list_all container_ok cs)"
  unfolding containers_ok_def by (rule py_iter_all [symmetric]) (simp add: container_ok_def)

lemma container_loop_total:
  "(\<exists>ps. container_loop cfg base ci cs acc = Inr ps) \<longleftrightarrow> list_all container_ok cs"
proof (induction cs arbitrary: ci acc)
  case Nil
  then show ?case by simp
next
  case (Cons c rest)
  show ?case
  proof (cases "is_dict c")
    case False
    then show ?thesis by (simp add: dict_get_not_dict container_ok_def)
  next
    case True
    then obtain vm where vm: "dict_get c ''volumeMounts'' = Inr vm"
      using dict_get_is_dict by blast
    then have fv: "field c ''volumeMounts'' = vm" by (rule field_dict_get)
    show ?thesis
    proof (cases "py_iter (py_or vm (JList []))")
      case (Inl e)
      then have "\<not> mounts_ok vm" by (simp add: mounts_ok_iff)
      then show ?thesis using vm fv Inl by (simp add: container_ok_def)
    next
      case (Inr ms)
      show ?thesis
      proof (cases "list_all is_dict ms")
        case False
        then have "\<not> mounts_ok vm" using Inr by (simp add: mounts_ok_iff)
        moreover have "\<And>ps. mount_loop cfg base ci 0 ms acc \<noteq> Inr ps"
          using False mount_loop_total by blast
        then obtain e where "mount_loop cfg base ci 0 ms acc = Inl e"
          by (cases "mount_loop cfg base ci 0 ms acc") auto
        ultimately show ?thesis using vm fv Inr by (simp add: container_ok_def)
      next
        case all: True
        then have "mounts_ok vm" using Inr by (simp add: mounts_ok_iff)
        moreover from all obtain mid where "mount_loop cfg base ci 0 ms acc = Inr mid"
          using mount_loop_total by blast
        ultimately show ?thesis using vm fv Inr True Cons.IH by (simp add: container_ok_def)
      qed
    qed
  qed
qed

lemma patches_for_volume_mounts_total:
  "(\<exists>ps. patches_for_volume_mounts cfg base v = Inr ps) \<longleftrightarrow> containers_ok v"
  by (cases "py_iter (py_or v (JList []))")
    (simp_all add: patches_for_volume_mounts_def containers_ok_iff container_loop_total)

lemma patches_for_volume_mounts_falsy:
  "\<not> truthy v \<Longrightarrow> patches_for_volume_mounts cfg base v = Inr []"
  by (simp add: patches_for_volume_mounts_def py_or_def)

lemma dict_get_field: "is_dict v \<Longrightarrow> dict_get v k = Inr (field v k)"
  using dict_get_is_dict [of v k] field_dict_get [of v k] by auto

lemma dict_get_py_or_field:
  "dict_or_falsy v \<Longrightarrow> dict_get (py_or v (JDict [])) k = Inr (field v k)"
proof -
  assume "dict_or_falsy v"
  then have "is_dict (py_or v (JDict []))" by (simp add: py_or_dict_iff)
  then obtain x where x: "dict_get (py_or v (JDict [])) k = Inr x"
    using dict_get_is_dict by blast
  then show ?thesis by (simp add: field_def)
qed

lemma dict_get_py_or_raises:
  "\<not> dict_or_falsy v \<Longrightarrow> dict_get (py_or v (JDict [])) k = Inl AttributeError"
  by (simp add: py_or_dict_iff [symmetric] dict_get_not_dict)

lemma has_target_label_total:
  "(\<exists>b. has_target_label cfg obj = Inr b) \<longleftrightarrow> labels_readable obj"
proof (cases "is_dict obj")
  case False
  then show ?thesis
    by (simp add: has_target_label_def labels_readable_def dict_get_not_dict)
next
  case obj: True
  show ?thesis
  proof (cases "dict_or_falsy (field obj ''metadata'')")
    case False
    then show ?thesis using obj
      by (simp add: has_target_label_def labels_readable_def dict_get_field dict_get_py_or_raises)
  next
    case md: True
    show ?thesis
    proof (cases "dict_or_falsy (field (field obj ''metadata'') ''labels'')")
      case False
      then show ?thesis using obj md
        by (simp add: has_target_label_def labels_readable_def dict_get_field
            dict_get_py_or_field dict_get_py_or_raises)
    next
      case True
      then show ?thesis using obj md
        by (simp add: has_target_label_def labels_readable_def dict_get_field dict_get_py_or_field)
    qed
  qed
qed

lemma has_target_label_no_metadata:
  assumes "is_dict obj" and "\<not> truthy (field obj ''metadata'')"
  shows "has_target_label cfg obj = Inr False"
  using assms by (simp add: has_target_label_def dict_get_field py_or_def)

lemma two_lists_total:
  "(\<exists>ps. bind_exc (patches_for_volume_mounts cfg b1 (py_or c (JList []))) (\<lambda>ps1.
          bind_exc (patches_for_volume_mounts cfg b2 (py_or ic (JList []))) (\<lambda>ps2.
          Inr (ps1 @ ps2))) = Inr ps) \<longleftrightarrow> containers_ok c \<and> containers_ok ic"
  using patches_for_volume_mounts_total [of cfg b1 c]
    patches_for_volume_mounts_total [of cfg b2 ic]
  by (auto simp: bind_exc_eq_Inr patches_for_volume_mounts_py_or)

lemma build_patches_Pod_total:
  "(\<exists>ps. build_patches cfg (JStr ''Pod'') obj = Inr ps) \<longleftrightarrow> pod_readable obj"
proof (cases "is_dict obj")
  case False
  then show ?thesis
    by (simp add: build_patches_def pod_readable_def dict_get_not_dict)
next
  case obj: True
  show ?thesis
  proof (cases "dict_or_falsy (field obj ''spec'')")
    case False
    then show ?thesis using obj
      by (simp add: build_patches_def pod_readable_def dict_get_field dict_get_py_or_raises)
  next
    case True
    then show ?thesis using obj
      by (simp add: build_patches_def pod_readable_def dict_get_field dict_get_py_or_field
          two_lists_total)
  qed
qed

lemma build_patches_Deployment_total:
  "(\<exists>ps. build_patches cfg (JStr ''Deployment'') obj = Inr ps) \<longleftrightarrow> deployment_readable obj"
proof (cases "is_dict obj")
  case False
  then show ?thesis
    by (simp add: build_patches_def deployment_readable_def dict_get_not_dict)
next
  case obj: True
  show ?thesis
  proof (cases "dict_or_falsy (field obj ''spec'')")
    case False
    then show ?thesis using obj
      by (simp add: build_patches_def deployment_readable_def dict_get_field dict_get_py_or_raises)
  next
    case sp: True
    show ?thesis
    proof (cases "dict_or_falsy (field (field obj ''spec'') ''template'')")
      case False
      then show ?thesis using obj sp
        by (simp add: build_patches_def deployment_readable_def dict_get_field
            dict_get_py_or_field dict_get_py_or_raises)
    next
      case tp: True
      show ?thesis
      proof (cases "dict_or_falsy (field (field (field obj ''spec'') ''template'') ''spec'')")
        case False
        then show ?thesis using obj sp tp
          by (simp add: build_patches_def deployment_readable_def dict_get_field
              dict_get_py_or_field dict_get_py_or_raises)
      next
        case True
        then show ?thesis using obj sp tp
          by (simp add: build_patches_def deployment_readable_def dict_get_field
              dict_get_py_or_field two_lists_total)
      qed
    qed
  qed
qed

lemma mount_step_not_string: "\<forall>mp. v \<noteq> JStr mp \<Longrightarrow> mount_step cfg base i j v ps = ps"
  by (cases v) (auto simp: mount_step_def)


lemma container_loop_no_mounts:
  assumes "is_dict c" and "\<not> truthy (field c ''volumeMounts'')"
  shows "container_loop cfg base i (c # rest) ps = container_loop cfg base (Suc i) rest ps"
  using assms by (simp add: dict_get_field py_or_def)

lemma build_patches_Pod_no_spec:
  assumes "is_dict obj" and "\<not> truthy (field obj ''spec'')"
  shows "build_patches cfg (JStr ''Pod'') obj = Inr []"
  using assms
  by (simp add: build_patches_def dict_get_field py_or_def patches_for_volume_mounts_def)

lemma dict_get_Inl: "dict_get v k = Inl e \<Longrightarrow> e = AttributeError"
  by (cases v) simp_all

lemma py_iter_Inl: "py_iter v = Inl e \<Longrightarrow> e = TypeError"
  by (cases v) simp_all

lemma bind_exc_eq_Inl:
  "bind_exc m f = Inl e \<longleftrightarrow> m = Inl e \<or> (\<exists>x. m = Inr x \<and> f x = Inl e)"
  by (cases m) simp_all

lemma has_target_label_Inl: "has_target_label cfg obj = Inl e \<Longrightarrow> e = AttributeError"
  by (auto simp: has_target_label_def Let_def bind_exc_eq_Inl dest: dict_get_Inl)

lemma mount_loop_Inl:
  "mount_loop cfg base ci mi ms acc = Inl e \<Longrightarrow> e = AttributeError"
  by (induction ms arbitrary: mi acc) (auto split: sum.splits dest: dict_get_Inl)

lemma container_loop_Inl:
  "container_loop cfg base ci cs acc = Inl e \<Longrightarrow> e = AttributeError \<or> e = TypeError"
  by (induction cs arbitrary: ci acc)
    (auto split: sum.splits dest: dict_get_Inl py_iter_Inl mount_loop_Inl)

lemma patches_for_volume_mounts_Inl:
  "patches_for_volume_mounts cfg base v = Inl e \<Longrightarrow> e = AttributeError \<or> e = TypeError"
  by (auto simp: patches_for_volume_mounts_def bind_exc_eq_Inl
      dest: py_iter_Inl container_loop_Inl)

lemma build_patches_Inl:
  "build_patches cfg knd obj = Inl e \<Longrightarrow> e = AttributeError \<or> e = TypeError"
  by (auto simp: build_patches_def Let_def bind_exc_eq_Inl split: if_splits
      dest: dict_get_Inl patches_for_volume_mounts_Inl)

lemma py_or_falsy: "\<not> truthy v \<Longrightarrow> py_or v d = d"
  by (simp add: py_or_def)

lemma has_target_label_no_labels:
  assumes "is_dict obj" and "dict_or_falsy (field obj ''metadata'')"
    and "\<not> truthy (field (field obj ''metadata'') ''labels'')"
  shows "has_target_label cfg obj = Inr False"
proof -
  have 1: "dict_get obj ''metadata'' = Inr (field obj ''metadata'')"
    using assms(1) by (rule dict_get_field)
  have 2: "dict_get (py_or (field obj ''metadata'') (JDict [])) ''labels'' =
      Inr (field (field obj ''metadata'') ''labels'')"
    using assms(2) by (rule dict_get_py_or_field)
  have 3: "py_or (field (field obj ''metadata'') ''labels'') (JDict []) = JDict []"
    using assms(3) by (rule py_or_falsy)
  show ?thesis
    by (simp add: has_target_label_def 1 2 3)
qed

lemma build_patches_Deployment_no_template_spec:
  assumes "is_dict obj" and "dict_or_falsy (field obj ''spec'')"
    and "dict_or_falsy (field (field obj ''spec'') ''template'')"
    and "\<not> truthy (field (field (field obj ''spec'') ''template'') ''spec'')"
  shows "build_patches cfg (JStr ''Deployment'') obj = Inr []"
proof -
  have 1: "dict_get obj ''spec'' = Inr (field obj ''spec'')"
    using assms(1) by (rule dict_get_field)
  have 2: "dict_get (py_or (field obj ''spec'') (JDict [])) ''template'' =
      Inr (field (field obj ''spec'') ''template'')"
    using assms(2) by (rule dict_get_py_or_field)
  have 3: "dict_get (py_or (field (field obj ''spec'') ''template'') (JDict [])) ''spec'' =
      Inr (field (field (field obj ''spec'') ''template'') ''spec'')"
    using assms(3) by (rule dict_get_py_or_field)
  have 4: "py_or (field (field (field obj ''spec'') ''template'') ''spec'') (JDict []) = JDict []"
    using assms(4) by (rule py_or_falsy)
  have 5: "patches_for_volume_mounts cfg b (py_or JNull (JList [])) = Inr []" for b
    by (simp add: patches_for_volume_mounts_def py_or_falsy)
  show ?thesis
    by (simp add: build_patches_def 1 2 3 4 5)
qed

lemma field_falsy: "\<not> truthy v \<Longrightarrow> field v k = JNull"
  by (simp add: field_def py_or_def)

lemma falsy_dict_or_falsy: "\<not> truthy v \<Longrightarrow> dict_or_falsy v"
  by (simp add: dict_or_falsy_def)

lemma build_patches_Deployment_no_template:
  assumes "is_dict obj" and "dict_or_falsy (field obj ''spec'')"
    and "\<not> truthy (field (field obj ''spec'') ''template'')"
  shows "build_patches cfg (JStr ''Deployment'') obj = Inr []"
  using assms
  by (intro build_patches_Deployment_no_template_spec) (simp_all add: field_falsy falsy_dict_or_falsy)

lemma build_patches_Deployment_no_spec:
  assumes "is_dict obj" and "\<not> truthy (field obj ''spec'')"
  shows "build_patches cfg (JStr ''Deployment'') obj = Inr []"
  using assms
  by (intro build_patches_Deployment_no_template) (simp_all add: field_falsy falsy_dict_or_falsy)

text \<open>An exception of an accessor inside the handler ends in the plain response.\<close>

lemma mutate_accessor_raises:
  assumes "req_kind raw = JStr ''Pod'' \<or> req_kind raw = JStr ''Deployment''"
    and "has_target_label cfg (req_object raw) = Inl e \<or>
         (has_target_label cfg (req_object raw) = Inr True \<and>
          build_patches cfg (req_kind raw) (req_object raw) = Inl e)"
  shows "mutate cfg raw =
     BLANK_ADMISSIONREVIEW \<lparr>uid = req_uid raw, allowed = True, patch = None, patchType = None\<rparr>"
proof (cases "mutate_try cfg raw")
  case (Inl x)
  then show ?thesis by (simp add: mutate_def fail_uid_req_uid)
next
  case (Inr resp)
  from mutate_try_Inr [OF Inr] obtain ops
    where "admission_ops cfg (req_kind raw) (req_object raw) = Inr ops"
    by blast
  moreover have "admission_ops cfg (req_kind raw) (req_object raw) = Inl e"
    using assms by (auto simp: admission_ops_def)
  ultimately show ?thesis by simp
qed

text \<open>
  C9, as claimed, fails. The claim: every accessor is total over shape errors, a field
  that is absent or of the wrong type at any depth being read as empty. A field that counts
  as true and has the wrong type makes the accessor raise: a string for \<open>metadata\<close>, a
  number for \<open>volumeMounts\<close>, a string for \<open>spec\<close>.
\<close>

theorem accessors_raise_on_wrong_type:
  "has_target_label default_config (JDict [(''metadata'', JStr ''x'')]) = Inl AttributeError
   \<and> patches_for_volume_mounts default_config ''/spec/containers''
        (JList [JDict [(''volumeMounts'', JInt 1)]]) = Inl TypeError
   \<and> build_patches default_config (JStr ''Pod'') (JDict [(''spec'', JStr ''x'')]) =
        Inl AttributeError"
  by code_simp

text \<open>
  C9, as amended. The label check, the patch builder and, for the kinds \<open>Pod\<close> and
  \<open>Deployment\<close>, the planner return without an exception exactly when the object, each
  container and each mount is a mapping, every other mapping they read (\<open>metadata\<close>,
  \<open>labels\<close>, \<open>spec\<close>, \<open>template\<close>, the template's \<open>spec\<close>) is a mapping or counts as
  false, and every list they walk (\<open>containers\<close>, \<open>initContainers\<close>, \<open>volumeMounts\<close>)
  is a list or counts as false; for any other kind the planner returns the empty sequence
  on every object. A field that is absent or counts as false is read as empty: no
  \<open>metadata\<close> or no \<open>labels\<close> gives \<open>False\<close> from the label check, a container list
  that counts as false gives no operation, a container whose mounts count as false adds
  none, a Pod with no \<open>spec\<close> and a Deployment with no \<open>spec\<close>, no \<open>template\<close> or no
  template \<open>spec\<close> give none; and a mount path that is not a string is skipped. On every
  other shape the accessor raises \<open>AttributeError\<close> or \<open>TypeError\<close>, and inside the
  handler that exception ends in the response \<open>allowed: true\<close> without a patch.
\<close>

theorem accessors_total_on_readable:
  "((\<exists>b. has_target_label cfg obj = Inr b) \<longleftrightarrow> labels_readable obj)
   \<and> (is_dict obj \<and> \<not> truthy (field obj ''metadata'') \<longrightarrow>
        has_target_label cfg obj = Inr False)
   \<and> ((\<exists>ps. patches_for_volume_mounts cfg base cs = Inr ps) \<longleftrightarrow> containers_ok cs)
   \<and> (\<not> truthy cs \<longrightarrow> patches_for_volume_mounts cfg base cs = Inr [])
   \<and> (is_dict c \<and> \<not> truthy (field c ''volumeMounts'') \<longrightarrow>
        container_loop cfg base i (c # rest) ps = container_loop cfg base (Suc i) rest ps)
   \<and> ((\<forall>mp. v \<noteq> JStr mp) \<longrightarrow> mount_step cfg base i j v ps = ps)
   \<and> ((\<exists>ps. build_patches cfg (JStr ''Pod'') obj = Inr ps) \<longleftrightarrow> pod_readable obj)
   \<and> (is_dict obj \<and> \<not> truthy (field obj ''spec'') \<longrightarrow>
        build_patches cfg (JStr ''Pod'') obj = Inr [])
   \<and> ((\<exists>ps. build_patches cfg (JStr ''Deployment'') obj = Inr ps) \<longleftrightarrow>
        deployment_readable obj)
   \<and> (is_dict obj \<and> dict_or_falsy (field obj ''metadata'')
        \<and> \<not> truthy (field (field obj ''metadata'') ''labels'') \<longrightarrow>
        has_target_label cfg obj = Inr False)
   \<and> (is_dict obj \<and> \<not> truthy (field obj ''spec'') \<longrightarrow>
        build_patches cfg (JStr ''Deployment'') obj = Inr [])
   \<and> (is_dict obj \<and> dict_or_falsy (field obj ''spec'')
        \<and> \<not> truthy (field (field obj ''spec'') ''template'') \<longrightarrow>
        build_patches cfg (JStr ''Deployment'') obj = Inr [])
   \<and> (is_dict obj \<and> dict_or_falsy (field obj ''spec'')
        \<and> dict_or_falsy (field (field obj ''spec'') ''template'')
        \<and> \<not> truthy (field (field (field obj ''spec'') ''template'') ''spec'') \<longrightarrow>
        build_patches cfg (JStr ''Deployment'') obj = Inr [])
   \<and> (knd \<noteq> JStr ''Pod'' \<and> knd \<noteq> JStr ''Deployment'' \<longrightarrow> build_patches cfg knd obj = Inr [])
   \<and> (has_target_label cfg obj = Inl e \<longrightarrow> e = AttributeError)
   \<and> (patches_for_volume_mounts cfg base cs = Inl e \<longrightarrow> e = AttributeError \<or> e = TypeError)
   \<and> (build_patches cfg knd obj = Inl e \<longrightarrow> e = AttributeError \<or> e = TypeError)
   \<and> ((req_kind raw = JStr ''Pod'' \<or> req_kind raw = JStr ''Deployment'')
        \<and> (has_target_label cfg (req_object raw) = Inl e
             \<or> (has_target_label cfg (req_object raw) = Inr True
                  \<and> build_patches cfg (req_kind raw) (req_object raw) = Inl e)) \<longrightarrow>
        mutate cfg raw =
          BLANK_ADMISSIONREVIEW
            \<lparr>uid = req_uid raw, allowed = True, patch = None, patchType = None\<rparr>)"
proof (intro conjI impI)
  show "(\<exists>b. has_target_label cfg obj = Inr b) \<longleftrightarrow> labels_readable obj"
    by (rule has_target_label_total)
  show "(\<exists>ps. patches_for_volume_mounts cfg base cs = Inr ps) \<longleftrightarrow> containers_ok cs"
    by (rule patches_for_volume_mounts_total)
  show "(\<exists>ps. build_patches cfg (JStr ''Pod'') obj = Inr ps) \<longleftrightarrow> pod_readable obj"
    by (rule build_patches_Pod_total)
  show "(\<exists>ps. build_patches cfg (JStr ''Deployment'') obj = Inr ps) \<longleftrightarrow> deployment_readable obj"
    by (rule build_patches_Deployment_total)
next
  assume "is_dict obj \<and> \<not> truthy (field obj ''metadata'')"
  then show "has_target_label cfg obj = Inr False"
    by (simp add: has_target_label_no_metadata)
next
  assume "\<not> truthy cs"
  then show "patches_for_volume_mounts cfg base cs = Inr []"
    by (rule patches_for_volume_mounts_falsy)
next
  assume "is_dict c \<and> \<not> truthy (field c ''volumeMounts'')"
  then have "is_dict c" and "\<not> truthy (field c ''volumeMounts'')" by simp_all
  then show "container_loop cfg base i (c # rest) ps = container_loop cfg base (Suc i) rest ps"
    by (rule container_loop_no_mounts)
next
  assume "\<forall>mp. v \<noteq> JStr mp"
  then show "mount_step cfg base i j v ps = ps"
    by (rule mount_step_not_string)
next
  assume "is_dict obj \<and> \<not> truthy (field obj ''spec'')"
  then have "is_dict obj" and "\<not> truthy (field obj ''spec'')" by simp_all
  then show "build_patches cfg (JStr ''Pod'') obj = Inr []"
    by (rule build_patches_Pod_no_spec)
next
  assume "is_dict obj \<and> dict_or_falsy (field obj ''metadata'')
        \<and> \<not> truthy (field (field obj ''metadata'') ''labels'')"
  then show "has_target_label cfg obj = Inr False"
    by (simp add: has_target_label_no_labels)
next
  assume "is_dict obj \<and> \<not> truthy (field obj ''spec'')"
  then show "build_patches cfg (JStr ''Deployment'') obj = Inr []"
    by (simp add: build_patches_Deployment_no_spec)
next
  assume "is_dict obj \<and> dict_or_falsy (field obj ''spec'')
        \<and> \<not> truthy (field (field obj ''spec'') ''template'')"
  then show "build_patches cfg (JStr ''Deployment'') obj = Inr []"
    by (simp add: build_patches_Deployment_no_template)
next
  assume "is_dict obj \<and> dict_or_falsy (field obj ''spec'')
        \<and> dict_or_falsy (field (field obj ''spec'') ''template'')
        \<and> \<not> truthy (field (field (field obj ''spec'') ''template'') ''spec'')"
  then show "build_patches cfg (JStr ''Deployment'') obj = Inr []"
    by (simp add: build_patches_Deployment_no_template_spec)
next
  assume "knd \<noteq> JStr ''Pod'' \<and> knd \<noteq> JStr ''Deployment''"
  then show "build_patches cfg knd obj = Inr []"
    by (simp add: build_patches_other)
next
  assume "has_target_label cfg obj = Inl e"
  then show "e = AttributeError" by (rule has_target_label_Inl)
next
  assume "patches_for_volume_mounts cfg base cs = Inl e"
  then show "e = AttributeError \<or> e = TypeError" by (rule patches_for_volume_mounts_Inl)
next
  assume "build_patches cfg knd obj = Inl e"
  then show "e = AttributeError \<or> e = TypeError" by (rule build_patches_Inl)
next
  assume h: "(req_kind raw = JStr ''Pod'' \<or> req_kind raw = JStr ''Deployment'')
        \<and> (has_target_label cfg (req_object raw) = Inl e
             \<or> (has_target_label cfg (req_object raw) = Inr True
                  \<and> build_patches cfg (req_kind raw) (req_object raw) = Inl e))"
  from h [THEN conjunct1] h [THEN conjunct2]
  show "mutate cfg raw =
          BLANK_ADMISSIONREVIEW
            \<lparr>uid = req_uid raw, allowed = True, patch = None, patchType = None\<rparr>"
    by (rule mutate_accessor_raises)
qed

theorem accessors_total_on_readable_witness:
  "labels_readable example_sparse_pod
   \<and> (\<exists>b. has_target_label default_config example_sparse_pod = Inr b)
   \<and> is_dict example_sparse_pod \<and> \<not> truthy (field example_sparse_pod ''metadata'')
   \<and> has_target_label default_config example_sparse_pod = Inr False
   \<and> pod_readable example_sparse_pod
   \<and> (\<exists>ps. build_patches default_config (JStr ''Pod'') example_sparse_pod = Inr ps)
   \<and> req_kind (Some (admission_review_of ''Pod'' example_bad_metadata_pod)) = JStr ''Pod''
   \<and> has_target_label default_config
        (req_object (Some (admission_review_of ''Pod'' example_bad_metadata_pod))) =
        Inl AttributeError
   \<and> mutate default_config (Some (admission_review_of ''Pod'' example_bad_metadata_pod)) =
        BLANK_ADMISSIONREVIEW \<lparr>uid = JStr ''u-1'', allowed = True, patch = None, patchType = None\<rparr>"
proof -
  let ?r = "Some (admission_review_of ''Pod'' example_bad_metadata_pod)"
  note t = accessors_total_on_readable [of default_config example_sparse_pod]
  have lr: "labels_readable example_sparse_pod" by code_simp
  have d: "is_dict example_sparse_pod" by code_simp
  have nm: "\<not> truthy (field example_sparse_pod ''metadata'')" by code_simp
  have pr: "pod_readable example_sparse_pod" by code_simp
  have k: "req_kind ?r = JStr ''Pod''" by code_simp
  have hl: "has_target_label default_config (req_object ?r) = Inl AttributeError" by code_simp
  have u: "req_uid ?r = JStr ''u-1''" by code_simp
  from t [THEN conjunct1] lr
  have a: "\<exists>b. has_target_label default_config example_sparse_pod = Inr b"
    by (rule iffD2)
  from t [THEN conjunct2, THEN conjunct1] d nm
  have b: "has_target_label default_config example_sparse_pod = Inr False"
    by (simp only: simp_thms)
  from t [THEN conjunct2, THEN conjunct2, THEN conjunct2, THEN conjunct2, THEN conjunct2,
      THEN conjunct2, THEN conjunct1] pr
  have c: "\<exists>ps. build_patches default_config (JStr ''Pod'') example_sparse_pod = Inr ps"
    by (rule iffD2)
  have "mutate default_config ?r =
      BLANK_ADMISSIONREVIEW \<lparr>uid = req_uid ?r, allowed = True, patch = None, patchType = None\<rparr>"
    using accessors_total_on_readable
      [where cfg = default_config and raw = ?r and e = AttributeError] k hl
    by (simp only: simp_thms)
  then have m: "mutate default_config ?r =
      BLANK_ADMISSIONREVIEW \<lparr>uid = JStr ''u-1'', allowed = True, patch = None, patchType = None\<rparr>"
    using u by (simp only:)
  show ?thesis
    by (intro conjI lr a d nm b pr c k hl m)
qed

end
